theory Spec2Isabelle
  imports Complex_Main "HOL-Library.Sublist"
begin

section \<open>Conversation history\<close>

text \<open>
  The agent core exists in two variants that share the history handling word for word:
  the structured (function calling) variant of \<^verbatim>\<open>src/mcp-agent.ts\<close> and the free-text
  (JSON directive) variant of \<^verbatim>\<open>src/unnamed/part_001\<close>.

  A chat message is an object with a role and a content. The content is a string, or
  something that is not a string (\<^verbatim>\<open>null\<close> on an assistant message that only carries
  tool calls): \<open>None\<close>. A string is a list of characters, one for each UTF-16 code unit,
  so that \<open>length\<close> is the \<^verbatim>\<open>.length\<close> of the source; the characters of HOL cover the
  code units below 256.
\<close>

datatype role = System | User | Assistant | Tool

datatype toolCall =
    FunctionCall (call_id: string) (call_name: string) (call_arguments: string)
  | OtherCall (call_id: string) string

record message =
  role :: role
  content :: "string option"
  tool_call_id :: "string option"
  tool_calls :: "toolCall list"

definition MAX_CONTEXT_TOKENS :: nat where
  "MAX_CONTEXT_TOKENS = 200000"

definition ESTIMATED_CHARS_PER_TOKEN :: nat where
  "ESTIMATED_CHARS_PER_TOKEN = 4"

definition MAX_CONTEXT_CHARS :: nat where
  "MAX_CONTEXT_CHARS = MAX_CONTEXT_TOKENS * ESTIMATED_CHARS_PER_TOKEN"

text \<open>
  \<^verbatim>\<open>MAX_CONTEXT_CHARS * 0.8\<close> and \<^verbatim>\<open>MAX_CONTEXT_CHARS * 0.5\<close> are products of doubles.
  Both are whole numbers (the first product rounds to exactly 640000), and they are only
  compared with sums of string lengths, so they are natural numbers here.
\<close>

definition TRIM_THRESHOLD :: nat where
  "TRIM_THRESHOLD = MAX_CONTEXT_CHARS * 8 div 10"

definition targetLength :: nat where
  "targetLength = MAX_CONTEXT_CHARS * 5 div 10"

text \<open>\<^verbatim>\<open>typeof msg.content === "string" ? msg.content.length : 0\<close>\<close>

definition msgLength :: "message \<Rightarrow> nat" where
  "msgLength msg = (case content msg of Some c \<Rightarrow> length c | None \<Rightarrow> 0)"

text \<open>\<^verbatim>\<open>chatHistory.reduce((total, msg) => total + content.length, 0)\<close>\<close>

definition calculateHistoryLength :: "message list \<Rightarrow> nat" where
  "calculateHistoryLength chatHistory =
     foldl (\<lambda>total msg. total + length (case content msg of Some c \<Rightarrow> c | None \<Rightarrow> [])) 0 chatHistory"

text \<open>
  The loop of \<^verbatim>\<open>trimHistory\<close>: \<^verbatim>\<open>for (let i = otherMessages.length - 1; i >= 0; i--)\<close>.
  The first argument holds the messages still to visit, most recent first; \<^verbatim>\<open>unshift\<close>
  puts a message in front of \<^verbatim>\<open>recentMessages\<close>; \<^verbatim>\<open>break\<close> returns what was collected.
\<close>

fun recentLoop :: "message list \<Rightarrow> nat \<Rightarrow> message list \<Rightarrow> message list" where
  "recentLoop [] accumulatedLength recentMessages = recentMessages"
| "recentLoop (msg # older) accumulatedLength recentMessages =
     (if accumulatedLength + msgLength msg > targetLength then recentMessages
      else recentLoop older (accumulatedLength + msgLength msg) (msg # recentMessages))"

definition trimHistory :: "message list \<Rightarrow> message list" where
  "trimHistory chatHistory =
     (let currentLength = calculateHistoryLength chatHistory in
      if currentLength < TRIM_THRESHOLD then chatHistory
      else
        (case find (\<lambda>msg. role msg = System) chatHistory of
           None \<Rightarrow> chatHistory
         | Some systemPrompt \<Rightarrow>
             (let otherMessages = filter (\<lambda>msg. role msg \<noteq> System) chatHistory;
                  recentMessages = recentLoop (rev otherMessages) 0 []
              in systemPrompt # recentMessages)))"

text \<open>The two operations on the history: \<^verbatim>\<open>chatHistory.push(msg)\<close> and \<^verbatim>\<open>trimHistory()\<close>.\<close>

datatype historyOp = Append message | Trim

fun applyOp :: "message list \<Rightarrow> historyOp \<Rightarrow> message list" where
  "applyOp h (Append msg) = h @ [msg]"
| "applyOp h Trim = trimHistory h"

definition applyOps :: "message list \<Rightarrow> historyOp list \<Rightarrow> message list" where
  "applyOps h ops = foldl applyOp h ops"

section \<open>The history as the specification words it\<close>

text \<open>
  These two definitions follow the words of the specification, not the code: the system
  instruction is the message at index 0, the remaining messages are all the others, and
  the kept messages are the longest most-recent run of them whose accumulated content
  length does not exceed the budget (the oldest messages are dropped until the rest fits).
\<close>

fun specRecentSuffix :: "nat \<Rightarrow> message list \<Rightarrow> message list" where
  "specRecentSuffix budget [] = []"
| "specRecentSuffix budget (msg # newer) =
     (if calculateHistoryLength (msg # newer) \<le> budget then msg # newer
      else specRecentSuffix budget newer)"

definition specTrim :: "message list \<Rightarrow> message list" where
  "specTrim h =
     (case h of
        [] \<Rightarrow> []
      | systemInstruction # remaining \<Rightarrow>
          if 640000 \<le> calculateHistoryLength h
          then systemInstruction # specRecentSuffix 400000 remaining
          else h)"

section \<open>Values, errors and the outside world\<close>

text \<open>
  What \<^verbatim>\<open>JSON.parse\<close> returns, and what the tool provider takes and returns, is a JSON
  value. A thrown JavaScript error is a value carrying its message.
\<close>

datatype json =
    JNull
  | JBool bool
  | JNumber real
  | JString string
  | JArray "json list"
  | JObject "(string \<times> json) list"

datatype jsError = JsError (errorMessage: string)

text \<open>
  Reading a property \<^verbatim>\<open>parsed.key\<close> of a parsed value: \<^verbatim>\<open>null\<close> throws a TypeError, an
  object gives the property or \<^verbatim>\<open>undefined\<close> (\<open>None\<close>), and the other values have none of
  the properties the agent reads (done, message, tool, arguments, imageUrl). An object
  holds its own properties in order, each key once, as \<^verbatim>\<open>JSON.parse\<close> builds it.
\<close>

fun getProp :: "json \<Rightarrow> string \<Rightarrow> jsError + json option" where
  "getProp JNull key = Inl (JsError (''Cannot read properties of null (reading '' @ key @ '')''))"
| "getProp (JObject props) key = Inr (map_of props key)"
| "getProp (JBool b) key = Inr None"
| "getProp (JNumber n) key = Inr None"
| "getProp (JString str) key = Inr None"
| "getProp (JArray items) key = Inr None"

text \<open>JavaScript truthiness, as \<^verbatim>\<open>if (v)\<close>, \<^verbatim>\<open>a && b\<close> and \<^verbatim>\<open>a || b\<close> test it.\<close>

fun truthy :: "json option \<Rightarrow> bool" where
  "truthy None = False"
| "truthy (Some JNull) = False"
| "truthy (Some (JBool b)) = b"
| "truthy (Some (JNumber n)) = (n \<noteq> 0)"
| "truthy (Some (JString str)) = (str \<noteq> [])"
| "truthy (Some (JArray items)) = True"
| "truthy (Some (JObject props)) = True"

text \<open>\<^verbatim>\<open>String.prototype.trim\<close>, on the white space of the first 256 code units.\<close>

definition isWhiteSpace :: "char \<Rightarrow> bool" where
  "isWhiteSpace c = (c \<in> set [CHR 0x09, CHR 0x0A, CHR 0x0B, CHR 0x0C, CHR 0x0D, CHR 0x20, CHR 0xA0])"

definition trim :: "string \<Rightarrow> string" where
  "trim str = rev (dropWhile isWhiteSpace (rev (dropWhile isWhiteSpace str)))"

text \<open>\<^verbatim>\<open>.replaceAll("\\", "")\<close> and \<^verbatim>\<open>.replaceAll("&quot;", '"')\<close> on a tool result.\<close>

definition removeBackslashes :: "string \<Rightarrow> string" where
  "removeBackslashes str = filter (\<lambda>c. c \<noteq> CHR 0x5C) str"

fun replaceQuot :: "string \<Rightarrow> string" where
  "replaceQuot [] = []"
| "replaceQuot (c # cs) =
     (if take 6 (c # cs) = ''&quot;'' then CHR 0x22 # replaceQuot (drop 5 cs)
      else c # replaceQuot cs)"

text \<open>A tool as the provider lists it, and as it is declared to the LLM.\<close>

record mcpTool =
  mcp_name :: string
  mcp_description :: "string option"
  mcp_inputSchema :: "json option"

record functionTool =
  fn_name :: string
  fn_description :: string
  fn_parameters :: json

text \<open>
  Everything the agent awaits or calls outside its own code is a field of the environment,
  over a state \<open>'w\<close> of the outside world that each call may change:
  the tool provider (\<^verbatim>\<open>client.connect\<close>, \<^verbatim>\<open>client.getAllTools\<close>, \<^verbatim>\<open>client.callTool\<close>),
  the LLM (\<^verbatim>\<open>openai.chat.completions.create\<close>, which gives \<^verbatim>\<open>choices[0]?.message\<close>, and for
  the image request \<^verbatim>\<open>choices[0]?.message?.content\<close>), each of which returns or throws;
  the built-ins \<^verbatim>\<open>JSON.parse\<close> (\<open>None\<close> when it throws), \<^verbatim>\<open>JSON.stringify(v)\<close>,
  \<^verbatim>\<open>JSON.stringify(v, null, 2)\<close> and the conversion of a value inside a template string;
  and the text of the system prompt, which in the free-text variant contains the list of
  the provider's tools.
\<close>

record 'w env =
  connect :: "'w \<Rightarrow> jsError option \<times> 'w"
  getAllTools :: "'w \<Rightarrow> (jsError + mcpTool list) \<times> 'w"
  createCompletion ::
    "'w \<Rightarrow> message list \<Rightarrow> functionTool list option \<Rightarrow> (jsError + message option) \<times> 'w"
  callTool :: "'w \<Rightarrow> json \<Rightarrow> json \<Rightarrow> (jsError + json) \<times> 'w"
  describeImageRequest :: "'w \<Rightarrow> json option \<Rightarrow> (jsError + string option) \<times> 'w"
  jsonParse :: "string \<Rightarrow> json option"
  jsonStringify :: "json \<Rightarrow> string"
  jsonStringifyPretty :: "json \<Rightarrow> string"
  jsToString :: "json \<Rightarrow> string"
  systemPrompt :: "mcpTool list \<Rightarrow> string"

section \<open>The agent's state\<close>

text \<open>
  The module's global variables. The field \<open>oplog\<close> is not in the source: it records, in
  order, each push on the history, each call of \<^verbatim>\<open>trimHistory\<close>, each request to the LLM
  and each call of the tool provider, so that the order of these operations can be stated.
\<close>

datatype event =
    EvPush message
  | EvTrim
  | EvRequest
  | EvCallTool json json
  | EvDescribeImage

record agent =
  chatHistory :: "message list"
  isInitialized :: bool
  openAITools :: "functionTool list"
  oplog :: "event list"

definition logEvent :: "event \<Rightarrow> agent \<Rightarrow> agent" where
  "logEvent ev s = s\<lparr>oplog := oplog s @ [ev]\<rparr>"

definition push :: "message \<Rightarrow> agent \<Rightarrow> agent" where
  "push msg s = logEvent (EvPush msg) (s\<lparr>chatHistory := chatHistory s @ [msg]\<rparr>)"

definition trimHistoryCall :: "agent \<Rightarrow> agent" where
  "trimHistoryCall s = logEvent EvTrim (s\<lparr>chatHistory := trimHistory (chatHistory s)\<rparr>)"

definition textMessage :: "role \<Rightarrow> string \<Rightarrow> message" where
  "textMessage r c = \<lparr>role = r, content = Some c, tool_call_id = None, tool_calls = []\<rparr>"

definition toolMessage :: "string \<Rightarrow> string \<Rightarrow> message" where
  "toolMessage callId c = \<lparr>role = Tool, content = Some c, tool_call_id = Some callId, tool_calls = []\<rparr>"

text \<open>\<^verbatim>\<open>{ error: true, message: error instanceof Error ? error.message : String(error) }\<close>\<close>

definition errorPayload :: "jsError \<Rightarrow> json" where
  "errorPayload e = JObject [(''error'', JBool True), (''message'', JString (errorMessage e))]"

datatype 'a stepResult = Continue | Break 'a | Throw jsError

definition cannedMessage :: string where
  "cannedMessage = ''Maximum iterations reached. Task may be incomplete.''"

section \<open>The structured variant (src/mcp-agent.ts)\<close>

definition customFunctions :: "functionTool list" where
  "customFunctions =
     [\<lparr>fn_name = ''describe_image'',
       fn_description =
         ''Returns string, the explanation of the content of an image given its URL.'',
       fn_parameters =
         JObject [(''type'', JString ''object''),
                  (''properties'',
                   JObject [(''imageUrl'',
                             JObject [(''type'', JString ''string''),
                                      (''description'', JString ''The URL of the image to describe.'')])])]\<rparr>]"

text \<open>
  The state once the module is loaded: \<^verbatim>\<open>let openAITools = []\<close> followed by
  \<^verbatim>\<open>openAITools.push(...customFunctions)\<close>.
\<close>

definition moduleState :: agent where
  "moduleState =
     \<lparr>chatHistory = [], isInitialized = False, openAITools = [] @ customFunctions, oplog = []\<rparr>"

definition convertMCPToolToOpenAIFunction :: "mcpTool \<Rightarrow> functionTool" where
  "convertMCPToolToOpenAIFunction t =
     \<lparr>fn_name = mcp_name t,
      fn_description =
        (case mcp_description t of
           Some d \<Rightarrow> if d \<noteq> [] then d else ''No description provided''
         | None \<Rightarrow> ''No description provided''),
      fn_parameters =
        (case mcp_inputSchema t of
           Some schema \<Rightarrow>
             if truthy (Some schema) then schema
             else JObject [(''type'', JString ''object''), (''properties'', JObject [])]
         | None \<Rightarrow> JObject [(''type'', JString ''object''), (''properties'', JObject [])])\<rparr>"

text \<open>\<^verbatim>\<open>initialize\<close> returns the error it throws, if any.\<close>

definition initialize :: "'w env \<Rightarrow> agent \<Rightarrow> 'w \<Rightarrow> jsError option \<times> agent \<times> 'w" where
  "initialize env s w =
     (if isInitialized s then (None, s, w)
      else
        (case connect env w of
           (Some e, w1) \<Rightarrow> (Some e, s, w1)
         | (None, w1) \<Rightarrow>
             (case getAllTools env w1 of
                (Inl e, w2) \<Rightarrow> (Some e, s, w2)
              | (Inr mcpTools, w2) \<Rightarrow>
                  (let s1 = s\<lparr>openAITools := map convertMCPToolToOpenAIFunction mcpTools\<rparr>;
                       s2 = push (textMessage System (systemPrompt env mcpTools)) s1
                   in (None, s2\<lparr>isInitialized := True\<rparr>, w2)))))"

definition isCustomFunction :: "string \<Rightarrow> bool" where
  "isCustomFunction functionName = list_ex (\<lambda>func. fn_name func = functionName) customFunctions"

text \<open>
  \<^verbatim>\<open>functionArgs.imageUrl\<close> is read before the \<^verbatim>\<open>try\<close>, so its TypeError leaves the function;
  the image request is inside the \<^verbatim>\<open>try\<close>, and its error becomes a tool message.
\<close>

definition executeCustomFunction ::
  "'w env \<Rightarrow> string \<Rightarrow> json \<Rightarrow> string \<Rightarrow> agent \<Rightarrow> 'w \<Rightarrow> jsError option \<times> agent \<times> 'w" where
  "executeCustomFunction env functionName functionArgs toolCallId s w =
     (if functionName = ''describe_image'' then
        (case getProp functionArgs ''imageUrl'' of
           Inl e \<Rightarrow> (Some e, s, w)
         | Inr imageUrl \<Rightarrow>
             (case describeImageRequest env w imageUrl of
                (Inr answer, w1) \<Rightarrow>
                  (let description =
                         (case answer of
                            Some d \<Rightarrow> if d \<noteq> [] then d else ''Could not analyze the image.''
                          | None \<Rightarrow> ''Could not analyze the image.'');
                       result =
                         JObject ([(''success'', JBool True)]
                                  @ (case imageUrl of Some u \<Rightarrow> [(''imageUrl'', u)] | None \<Rightarrow> [])
                                  @ [(''description'', JString description)]);
                       resultString = jsonStringifyPretty env result
                   in (None, push (toolMessage toolCallId resultString) (logEvent EvDescribeImage s), w1))
              | (Inl e, w1) \<Rightarrow>
                  (None,
                   push (toolMessage toolCallId (jsonStringify env (errorPayload e)))
                     (logEvent EvDescribeImage s),
                   w1)))
      else (None, s, w))"

text \<open>
  \<^verbatim>\<open>for (const toolCall of message.tool_calls)\<close>. \<^verbatim>\<open>JSON.parse(toolCall.function.arguments)\<close>
  is outside the \<^verbatim>\<open>try\<close>; the call of the provider is inside it.
\<close>

fun runToolCalls :: "'w env \<Rightarrow> toolCall list \<Rightarrow> agent \<Rightarrow> 'w \<Rightarrow> jsError option \<times> agent \<times> 'w" where
  "runToolCalls env [] s w = (None, s, w)"
| "runToolCalls env (OtherCall callId kind # calls) s w = runToolCalls env calls s w"
| "runToolCalls env (FunctionCall callId functionName arguments # calls) s w =
     (case jsonParse env arguments of
        None \<Rightarrow> (Some (JsError ''Unexpected token in JSON''), s, w)
      | Some functionArgs \<Rightarrow>
          if isCustomFunction functionName then
            (case executeCustomFunction env functionName functionArgs callId s w of
               (Some e, s1, w1) \<Rightarrow> (Some e, s1, w1)
             | (None, s1, w1) \<Rightarrow> runToolCalls env calls s1 w1)
          else
            (case callTool env w (JString functionName) functionArgs of
               (Inr mcpResult, w1) \<Rightarrow>
                 (let resultString =
                        replaceQuot (removeBackslashes (jsonStringifyPretty env mcpResult))
                  in runToolCalls env calls
                       (push (toolMessage callId resultString)
                          (logEvent (EvCallTool (JString functionName) functionArgs) s))
                       w1)
             | (Inl e, w1) \<Rightarrow>
                 runToolCalls env calls
                   (push (toolMessage callId (jsonStringify env (errorPayload e)))
                      (logEvent (EvCallTool (JString functionName) functionArgs) s))
                   w1))"

definition MAX_ITERATIONS :: nat where
  "MAX_ITERATIONS = 20"

text \<open>
  One pass through the body of the \<^verbatim>\<open>while\<close> loop: \<open>Continue\<close> is \<^verbatim>\<open>continue\<close>, \<open>Break m\<close>
  is \<^verbatim>\<open>break\<close> with \<^verbatim>\<open>finalMessage\<close> equal to \<open>m\<close>, \<open>Throw\<close> is an error leaving the loop.
\<close>

definition loopBody :: "'w env \<Rightarrow> agent \<Rightarrow> 'w \<Rightarrow> string stepResult \<times> agent \<times> 'w" where
  "loopBody env s w =
     (case createCompletion env w (chatHistory s) (Some (openAITools s)) of
        (Inl e, w1) \<Rightarrow> (Throw e, logEvent EvRequest s, w1)
      | (Inr None, w1) \<Rightarrow> (Break [], logEvent EvRequest s, w1)
      | (Inr (Some msg), w1) \<Rightarrow>
          (let s1 = push msg (logEvent EvRequest s) in
           if tool_calls msg \<noteq> [] then
             (case runToolCalls env (tool_calls msg) s1 w1 of
                (Some e, s2, w2) \<Rightarrow> (Throw e, s2, w2)
              | (None, s2, w2) \<Rightarrow> (Continue, s2, w2))
           else
             (case content msg of
                Some c \<Rightarrow> if c \<noteq> [] then (Break c, s1, w1) else (Break [], s1, w1)
              | None \<Rightarrow> (Break [], s1, w1))))"

text \<open>
  \<^verbatim>\<open>while (iteration < MAX_ITERATIONS)\<close>: the result is the error thrown, or the values of
  \<^verbatim>\<open>iteration\<close> and \<^verbatim>\<open>finalMessage\<close> when the loop is left.
\<close>

function agentLoop ::
  "'w env \<Rightarrow> nat \<Rightarrow> agent \<Rightarrow> 'w \<Rightarrow> (jsError + nat \<times> string) \<times> agent \<times> 'w" where
  "agentLoop env iteration s w =
     (if iteration < MAX_ITERATIONS then
        (case loopBody env s w of
           (Throw e, s1, w1) \<Rightarrow> (Inl e, s1, w1)
         | (Break finalMessage, s1, w1) \<Rightarrow> (Inr (iteration + 1, finalMessage), s1, w1)
         | (Continue, s1, w1) \<Rightarrow> agentLoop env (iteration + 1) s1 w1)
      else (Inr (iteration, []), s, w))"
  by pat_completeness auto
termination
  by (relation "measure (\<lambda>(env, iteration, s, w). MAX_ITERATIONS - iteration)") auto

declare agentLoop.simps [simp del]

definition executeCommand ::
  "'w env \<Rightarrow> string \<Rightarrow> agent \<Rightarrow> 'w \<Rightarrow> (jsError + string) \<times> agent \<times> 'w" where
  "executeCommand env userCommand s w =
     (case initialize env s w of
        (Some e, s0, w0) \<Rightarrow> (Inl e, s0, w0)
      | (None, s0, w0) \<Rightarrow>
          (let s1 = trimHistoryCall (push (textMessage User userCommand) s0) in
           case agentLoop env 0 s1 w0 of
             (Inl e, s2, w2) \<Rightarrow> (Inl e, s2, w2)
           | (Inr (iteration, finalMessage), s2, w2) \<Rightarrow>
               (Inr (if iteration \<ge> MAX_ITERATIONS
                     then (if finalMessage \<noteq> [] then finalMessage else cannedMessage)
                     else finalMessage),
                s2, w2)))"

section \<open>The free-text variant (src/unnamed/part_001)\<close>

text \<open>This module has no tool declarations: \<open>openAITools\<close> stays empty and is never read.\<close>

definition moduleState_text :: agent where
  "moduleState_text = \<lparr>chatHistory = [], isInitialized = False, openAITools = [], oplog = []\<rparr>"

definition initialize_text :: "'w env \<Rightarrow> agent \<Rightarrow> 'w \<Rightarrow> jsError option \<times> agent \<times> 'w" where
  "initialize_text env s w =
     (if isInitialized s then (None, s, w)
      else
        (case connect env w of
           (Some e, w1) \<Rightarrow> (Some e, s, w1)
         | (None, w1) \<Rightarrow>
             (case getAllTools env w1 of
                (Inl e, w2) \<Rightarrow> (Some e, s, w2)
              | (Inr tools, w2) \<Rightarrow>
                  (let s1 = push (textMessage System (systemPrompt env tools)) s
                   in (None, s1\<lparr>isInitialized := True\<rparr>, w2)))))"

text \<open>\<^verbatim>\<open>${parsed.tool}\<close> inside the template string of the tool result.\<close>

definition templateValue :: "'w env \<Rightarrow> json \<Rightarrow> string" where
  "templateValue env v = (case v of JString str \<Rightarrow> str | _ \<Rightarrow> jsToString env v)"

definition toolResultText :: "'w env \<Rightarrow> json \<Rightarrow> string \<Rightarrow> string" where
  "toolResultText env tool resultString =
     ''Tool execution result:'' @ [CHR 0x0A] @ ''Tool: '' @ templateValue env tool @ [CHR 0x0A]
     @ ''Result: '' @ resultString"

text \<open>
  What the \<^verbatim>\<open>try\<close> block does with the parsed output. \<open>Inl\<close> is an error thrown inside the
  block, which the \<^verbatim>\<open>catch\<close> of the loop body receives: the TypeError of reading a property
  of \<^verbatim>\<open>null\<close>, or the error of the tool provider.
\<close>

definition interpretDirective ::
  "'w env \<Rightarrow> json \<Rightarrow> agent \<Rightarrow> 'w \<Rightarrow> (jsError + json stepResult) \<times> agent \<times> 'w" where
  "interpretDirective env parsed s w =
     (case getProp parsed ''done'' of
        Inl e \<Rightarrow> (Inl e, s, w)
      | Inr done \<Rightarrow>
          if done = Some (JBool True) then
            (case getProp parsed ''message'' of
               Inl e \<Rightarrow> (Inl e, s, w)
             | Inr msg \<Rightarrow>
                 (case msg of
                    Some m \<Rightarrow>
                      if truthy (Some m) then (Inr (Break m), s, w)
                      else (Inr (Break (JString [])), s, w)
                  | None \<Rightarrow> (Inr (Break (JString [])), s, w)))
          else
            (case getProp parsed ''tool'' of
               Inl e \<Rightarrow> (Inl e, s, w)
             | Inr tool \<Rightarrow>
                 (case getProp parsed ''arguments'' of
                    Inl e \<Rightarrow> (Inl e, s, w)
                  | Inr arguments \<Rightarrow>
                      (case (tool, arguments) of
                         (Some t, Some a) \<Rightarrow>
                           if truthy (Some t) \<and> truthy (Some a) then
                             (case callTool env w t a of
                                (Inl e, w1) \<Rightarrow> (Inl e, logEvent (EvCallTool t a) s, w1)
                              | (Inr mcpResult, w1) \<Rightarrow>
                                  (let resultString = jsonStringifyPretty env mcpResult;
                                       s1 = push (textMessage System (toolResultText env t resultString))
                                              (logEvent (EvCallTool t a) s)
                                   in (Inr Continue, trimHistoryCall s1, w1)))
                           else (Inr (Break (JString [])), s, w)
                       | _ \<Rightarrow> (Inr (Break (JString [])), s, w)))))"

text \<open>\<^verbatim>\<open>completion.choices[0]?.message?.content?.trim() || ""\<close>\<close>

definition llmOutputOf :: "message option \<Rightarrow> string" where
  "llmOutputOf completionMessage =
     (case completionMessage of
        Some msg \<Rightarrow> (case content msg of Some c \<Rightarrow> trim c | None \<Rightarrow> [])
      | None \<Rightarrow> [])"

text \<open>
  One pass through the body of the \<^verbatim>\<open>while\<close> loop. \<open>Break m\<close> is an iteration that ends with
  \<^verbatim>\<open>taskComplete = true\<close> and \<^verbatim>\<open>finalMessage\<close> equal to \<open>m\<close> (the empty string if it was not
  assigned); \<open>Continue\<close> is an iteration that leaves \<^verbatim>\<open>taskComplete\<close> false. The \<^verbatim>\<open>catch\<close>
  has no parameter: whatever was thrown inside the \<^verbatim>\<open>try\<close>, the output of the LLM becomes
  the final message.
\<close>

definition loopBody_text :: "'w env \<Rightarrow> agent \<Rightarrow> 'w \<Rightarrow> json stepResult \<times> agent \<times> 'w" where
  "loopBody_text env s w =
     (case createCompletion env w (chatHistory s) None of
        (Inl e, w1) \<Rightarrow> (Throw e, logEvent EvRequest s, w1)
      | (Inr completionMessage, w1) \<Rightarrow>
          (let llmOutput = llmOutputOf completionMessage;
               s1 = push (textMessage Assistant llmOutput) (logEvent EvRequest s)
           in case jsonParse env llmOutput of
                None \<Rightarrow> (Break (JString llmOutput), s1, w1)
              | Some parsed \<Rightarrow>
                  (case interpretDirective env parsed s1 w1 of
                     (Inl e, s2, w2) \<Rightarrow> (Break (JString llmOutput), s2, w2)
                   | (Inr r, s2, w2) \<Rightarrow> (r, s2, w2))))"

definition MAX_ITERATIONS_text :: nat where
  "MAX_ITERATIONS_text = 10"

text \<open>
  \<^verbatim>\<open>while (!taskComplete && iteration < MAX_ITERATIONS)\<close>: the result is the error thrown, or
  the values of \<^verbatim>\<open>iteration\<close>, \<^verbatim>\<open>taskComplete\<close> and \<^verbatim>\<open>finalMessage\<close> when the loop is left.
\<close>

function agentLoop_text ::
  "'w env \<Rightarrow> nat \<Rightarrow> agent \<Rightarrow> 'w \<Rightarrow> (jsError + nat \<times> bool \<times> json) \<times> agent \<times> 'w" where
  "agentLoop_text env iteration s w =
     (if iteration < MAX_ITERATIONS_text then
        (case loopBody_text env s w of
           (Throw e, s1, w1) \<Rightarrow> (Inl e, s1, w1)
         | (Break finalMessage, s1, w1) \<Rightarrow> (Inr (iteration + 1, True, finalMessage), s1, w1)
         | (Continue, s1, w1) \<Rightarrow> agentLoop_text env (iteration + 1) s1 w1)
      else (Inr (iteration, False, JString []), s, w))"
  by pat_completeness auto
termination
  by (relation "measure (\<lambda>(env, iteration, s, w). MAX_ITERATIONS_text - iteration)") auto

declare agentLoop_text.simps [simp del]

definition executeCommand_text ::
  "'w env \<Rightarrow> string \<Rightarrow> agent \<Rightarrow> 'w \<Rightarrow> (jsError + json) \<times> agent \<times> 'w" where
  "executeCommand_text env userCommand s w =
     (case initialize_text env s w of
        (Some e, s0, w0) \<Rightarrow> (Inl e, s0, w0)
      | (None, s0, w0) \<Rightarrow>
          (let s1 = trimHistoryCall (push (textMessage User userCommand) s0) in
           case agentLoop_text env 0 s1 w0 of
             (Inl e, s2, w2) \<Rightarrow> (Inl e, s2, w2)
           | (Inr (iteration, taskComplete, finalMessage), s2, w2) \<Rightarrow>
               (Inr (if iteration \<ge> MAX_ITERATIONS_text \<and> \<not> taskComplete
                     then JString cannedMessage
                     else finalMessage),
                s2, w2)))"

section \<open>Example histories\<close>

definition exSystem :: message where
  "exSystem = textMessage System ''You are a helpful assistant.''"

definition exUser :: message where
  "exUser = textMessage User ''read the page''"

definition exAssistant :: message where
  "exAssistant = textMessage Assistant ''I will read it.''"

text \<open>A tool result of the free-text variant, which pushes it with the role system.\<close>

definition exPageResult :: message where
  "exPageResult = textMessage System (''Tool execution result:'' @ replicate 700000 (CHR ''x''))"

definition exOldCommand :: message where
  "exOldCommand = textMessage User (replicate 500000 (CHR ''u''))"

definition exRecentResult :: message where
  "exRecentResult = toolMessage ''call_1'' (replicate 200000 (CHR ''r''))"

section \<open>Notions used to state the properties\<close>

text \<open>The number of calls of \<^verbatim>\<open>trimHistory\<close> among the recorded operations.\<close>

definition trimCount :: "event list \<Rightarrow> nat" where
  "trimCount events = length (filter (\<lambda>ev. ev = EvTrim) events)"

text \<open>
  \<open>continues body n s w\<close> is the state after \<open>n\<close> passes through a loop body when every one
  of them ends with a tool invocation and goes on to the next request, and \<open>None\<close> when one
  of them ends the loop or throws.
\<close>

fun continues ::
  "(agent \<Rightarrow> 'w \<Rightarrow> 'a stepResult \<times> agent \<times> 'w) \<Rightarrow> nat \<Rightarrow> agent \<Rightarrow> 'w \<Rightarrow> (agent \<times> 'w) option" where
  "continues body 0 s w = Some (s, w)"
| "continues body (Suc n) s w =
     (case body s w of
        (Continue, s1, w1) \<Rightarrow> continues body n s1 w1
      | (Break m, s1, w1) \<Rightarrow> None
      | (Throw e, s1, w1) \<Rightarrow> None)"

text \<open>
  The history once \<^verbatim>\<open>initialize\<close> of the free-text variant has run on an environment whose
  setup succeeds: the system prompt is pushed unless the agent is initialized already.
\<close>

definition historyAfterSetup :: "string \<Rightarrow> agent \<Rightarrow> message list" where
  "historyAfterSetup prompt s =
     (if isInitialized s then chatHistory s else chatHistory s @ [textMessage System prompt])"

text \<open>
  A reply of the LLM in the structured variant that carries neither text content nor tool
  calls, or no message at all.
\<close>

definition degenerateReply :: "message option \<Rightarrow> bool" where
  "degenerateReply reply =
     (case reply of
        None \<Rightarrow> True
      | Some msg \<Rightarrow> tool_calls msg = [] \<and> (content msg = None \<or> content msg = Some []))"

text \<open>
  A parsed output in the free-text variant that has \<^verbatim>\<open>done: true\<close> and no message field, or
  that has neither the shape \<^verbatim>\<open>done: true\<close> nor a tool with arguments. \<open>property\<close> is the
  property of a value, \<open>None\<close> where there is none to read.
\<close>

definition property :: "json \<Rightarrow> string \<Rightarrow> json option" where
  "property v key = (case getProp v key of Inr p \<Rightarrow> p | Inl e \<Rightarrow> None)"

definition degenerateDirective :: "json \<Rightarrow> bool" where
  "degenerateDirective parsed =
     (if property parsed ''done'' = Some (JBool True) then property parsed ''message'' = None
      else \<not> (truthy (property parsed ''tool'') \<and> truthy (property parsed ''arguments'')))"

section \<open>Scripted environments\<close>

text \<open>
  An environment for running the agent without an LLM or a tool provider: the state of the
  world is the number of LLM requests answered so far, and the LLM answers request \<open>n\<close> with
  \<open>script n\<close>. Connecting and listing the tools succeed, and the tool provider answers as the
  function \<open>provider\<close> says.
\<close>

definition scriptedEnv ::
  "(string \<Rightarrow> json option) \<Rightarrow> (json \<Rightarrow> string) \<Rightarrow> (json \<Rightarrow> json \<Rightarrow> jsError + json)
     \<Rightarrow> mcpTool list \<Rightarrow> string \<Rightarrow> (nat \<Rightarrow> message option) \<Rightarrow> nat env" where
  "scriptedEnv parse render provider tools prompt script =
     \<lparr>connect = (\<lambda>w. (None, w)),
      getAllTools = (\<lambda>w. (Inr tools, w)),
      createCompletion = (\<lambda>w history declared. (Inr (script w), Suc w)),
      callTool = (\<lambda>w name arguments. (provider name arguments, w)),
      describeImageRequest = (\<lambda>w imageUrl. (Inr None, w)),
      jsonParse = parse,
      jsonStringify = render,
      jsonStringifyPretty = render,
      jsToString = render,
      systemPrompt = (\<lambda>tools. prompt)\<rparr>"

definition replyList :: "message option list \<Rightarrow> nat \<Rightarrow> message option" where
  "replyList replies n = (if n < length replies then replies ! n else None)"

text \<open>The texts of the examples.\<close>

definition doneHello :: string where
  \<open>doneHello = ''{"done": true, "message": "hello"}''\<close>

definition toolSearch :: string where
  \<open>toolSearch = ''{"tool": "search", "arguments": {"q": "x"}}''\<close>

definition doneFound :: string where
  \<open>doneFound = ''{"done": true, "message": "found it"}''\<close>

definition searchArguments :: string where
  \<open>searchArguments = ''{"q": "x"}''\<close>

definition toolFailedText :: string where
  \<open>toolFailedText = ''{"error":true,"message":"tool failed"}''\<close>

text \<open>\<^verbatim>\<open>JSON.parse\<close> and \<^verbatim>\<open>JSON.stringify\<close> as tables, at the texts and values of the examples.\<close>

definition exampleParse :: "string \<Rightarrow> json option" where
  "exampleParse text =
     (if text = doneHello then
        Some (JObject [(''done'', JBool True), (''message'', JString ''hello'')])
      else if text = toolSearch then
        Some (JObject [(''tool'', JString ''search''),
                       (''arguments'', JObject [(''q'', JString ''x'')])])
      else if text = doneFound then
        Some (JObject [(''done'', JBool True), (''message'', JString ''found it'')])
      else if text = searchArguments then Some (JObject [(''q'', JString ''x'')])
      else if text = ''null'' then Some JNull
      else if text = ''{}'' then Some (JObject [])
      else None)"

definition exampleStringify :: "json \<Rightarrow> string" where
  "exampleStringify v =
     (if v = JBool True then ''true''
      else if v = errorPayload (JsError ''tool failed'') then toolFailedText
      else ''null'')"

definition okProvider :: "json \<Rightarrow> json \<Rightarrow> jsError + json" where
  "okProvider name arguments = Inr (JBool True)"

definition failingProvider :: "json \<Rightarrow> json \<Rightarrow> jsError + json" where
  "failingProvider name arguments = Inl (JsError ''tool failed'')"

definition exTools :: "mcpTool list" where
  "exTools =
     [\<lparr>mcp_name = ''search'', mcp_description = Some ''Search the web'', mcp_inputSchema = None\<rparr>]"

text \<open>A reply of the LLM in the structured variant that asks for one call of the tool search.\<close>

definition exToolCallMessage :: message where
  "exToolCallMessage =
     \<lparr>role = Assistant, content = None, tool_call_id = None,
      tool_calls = [FunctionCall ''call_1'' ''search'' searchArguments]\<rparr>"

definition exEnv :: "(json \<Rightarrow> json \<Rightarrow> jsError + json) \<Rightarrow> message option list \<Rightarrow> nat env" where
  "exEnv provider replies =
     scriptedEnv exampleParse exampleStringify provider exTools ''You are a helpful assistant.''
       (replyList replies)"

text \<open>A reply of the LLM with no text content and no tool calls.\<close>

definition exEmptyReply :: message where
  "exEmptyReply = \<lparr>role = Assistant, content = None, tool_call_id = None, tool_calls = []\<rparr>"

text \<open>An LLM that gives the same reply to every request.\<close>

definition exLoopingEnv :: "message \<Rightarrow> nat env" where
  "exLoopingEnv reply =
     scriptedEnv exampleParse exampleStringify okProvider exTools ''You are a helpful assistant.''
       (\<lambda>n. Some reply)"

text \<open>
  The same environment with a world that also records, in order, every call the tool
  provider receives: the world is the number of LLM requests answered and the list of
  the names and arguments of the calls.
\<close>

definition recordingEnv ::
  "(string \<Rightarrow> json option) \<Rightarrow> (json \<Rightarrow> string) \<Rightarrow> (json \<Rightarrow> json \<Rightarrow> jsError + json)
     \<Rightarrow> mcpTool list \<Rightarrow> string \<Rightarrow> (nat \<Rightarrow> message option)
     \<Rightarrow> (nat \<times> (json \<times> json) list) env" where
  "recordingEnv parse render provider tools prompt script =
     \<lparr>connect = (\<lambda>w. (None, w)),
      getAllTools = (\<lambda>w. (Inr tools, w)),
      createCompletion = (\<lambda>w history declared. (Inr (script (fst w)), (Suc (fst w), snd w))),
      callTool = (\<lambda>w name arguments. (provider name arguments, (fst w, snd w @ [(name, arguments)]))),
      describeImageRequest = (\<lambda>w imageUrl. (Inr None, w)),
      jsonParse = parse,
      jsonStringify = render,
      jsonStringifyPretty = render,
      jsToString = render,
      systemPrompt = (\<lambda>tools. prompt)\<rparr>"

definition exRecordingEnv ::
  "(json \<Rightarrow> json \<Rightarrow> jsError + json) \<Rightarrow> message option list
     \<Rightarrow> (nat \<times> (json \<times> json) list) env" where
  "exRecordingEnv provider replies =
     recordingEnv exampleParse exampleStringify provider exTools ''You are a helpful assistant.''
       (replyList replies)"

text \<open>
  An LLM of the free-text variant that asks for a tool nine times and then answers with
  the empty object, and one of the structured variant that asks for a tool nineteen times
  and then sends an empty reply.
\<close>

definition exCapEnv :: "nat env" where
  "exCapEnv =
     scriptedEnv exampleParse exampleStringify okProvider exTools ''You are a helpful assistant.''
       (\<lambda>n. if n < 9 then Some (textMessage Assistant toolSearch)
            else Some (textMessage Assistant ''{}''))"

definition exCapEnvStructured :: "nat env" where
  "exCapEnvStructured =
     scriptedEnv exampleParse exampleStringify okProvider exTools ''You are a helpful assistant.''
       (\<lambda>n. if n < 19 then Some exToolCallMessage else Some exEmptyReply)"

text \<open>
  A tool provider that returns a page of 700000 characters, with \<^verbatim>\<open>JSON.stringify\<close> at
  strings that need no escaping.
\<close>

definition pageText :: string where
  "pageText = replicate 700000 (CHR ''x'')"

definition pageProvider :: "json \<Rightarrow> json \<Rightarrow> jsError + json" where
  "pageProvider name arguments = Inr (JString pageText)"

definition pageStringify :: "json \<Rightarrow> string" where
  "pageStringify v = (case v of JString str \<Rightarrow> [CHR 0x22] @ str @ [CHR 0x22] | _ \<Rightarrow> ''null'')"

definition exPageEnv :: "nat env" where
  "exPageEnv =
     scriptedEnv exampleParse pageStringify pageProvider exTools ''You are a helpful assistant.''
       (replyList [Some (textMessage Assistant toolSearch), Some (textMessage Assistant doneFound)])"

section \<open>Properties of trimming\<close>

lemma foldl_add_length:
  "foldl (\<lambda>total msg. total + length (case content msg of Some c \<Rightarrow> c | None \<Rightarrow> [])) a h
     = a + sum_list (map msgLength h)"
  by (induction h arbitrary: a) (auto simp: msgLength_def split: option.splits)

lemma calculateHistoryLength_sum:
  "calculateHistoryLength h = sum_list (map msgLength h)"
  by (simp add: calculateHistoryLength_def foldl_add_length)

lemma TRIM_THRESHOLD_val: "TRIM_THRESHOLD = 640000"
  by (simp add: TRIM_THRESHOLD_def MAX_CONTEXT_CHARS_def MAX_CONTEXT_TOKENS_def
      ESTIMATED_CHARS_PER_TOKEN_def)

lemma targetLength_val: "targetLength = 400000"
  by (simp add: targetLength_def MAX_CONTEXT_CHARS_def MAX_CONTEXT_TOKENS_def
      ESTIMATED_CHARS_PER_TOKEN_def)

lemmas example_defs =
  exSystem_def exUser_def exAssistant_def exPageResult_def exOldCommand_def exRecentResult_def
  textMessage_def toolMessage_def

lemma trimHistory_cases:
  "trimHistory h =
     (if calculateHistoryLength h < TRIM_THRESHOLD then h
      else case find (\<lambda>msg. role msg = System) h of
             None \<Rightarrow> h
           | Some sp \<Rightarrow> sp # recentLoop (rev (filter (\<lambda>msg. role msg \<noteq> System) h)) 0 [])"
  unfolding trimHistory_def Let_def by (rule refl)

text \<open>The loop admits a run of the most recent messages and stops at the first that does not fit.\<close>

lemma recentLoop_take:
  "\<exists>k\<le>length xs. recentLoop xs acc rec = rev (take k xs) @ rec
      \<and> (0 < k \<longrightarrow> acc + sum_list (map msgLength (take k xs)) \<le> targetLength)
      \<and> (k < length xs \<longrightarrow> targetLength < acc + sum_list (map msgLength (take (Suc k) xs)))"
proof (induction xs arbitrary: acc rec)
  case Nil
  then show ?case by simp
next
  case (Cons m ms)
  show ?case
  proof (cases "targetLength < acc + msgLength m")
    case True
    then show ?thesis by (intro exI[of _ 0]) simp
  next
    case False
    from Cons.IH[of "acc + msgLength m" "m # rec"]
    obtain k where k: "k \<le> length ms"
      "recentLoop ms (acc + msgLength m) (m # rec) = rev (take k ms) @ m # rec"
      "0 < k \<longrightarrow> acc + msgLength m + sum_list (map msgLength (take k ms)) \<le> targetLength"
      "k < length ms \<longrightarrow>
         targetLength < acc + msgLength m + sum_list (map msgLength (take (Suc k) ms))"
      by blast
    show ?thesis
    proof (intro exI[of _ "Suc k"] conjI impI)
      show "Suc k \<le> length (m # ms)" using k(1) by simp
      show "recentLoop (m # ms) acc rec = rev (take (Suc k) (m # ms)) @ rec"
        using False k(2) by simp
      show "acc + sum_list (map msgLength (take (Suc k) (m # ms))) \<le> targetLength"
        using False k(3) by (cases "k = 0") (auto simp: add.assoc)
      show "targetLength < acc + sum_list (map msgLength (take (Suc (Suc k)) (m # ms)))"
        if "Suc k < length (m # ms)"
        using that k(4) by (simp add: add.assoc)
    qed
  qed
qed

lemma recentLoop_all:
  "acc + sum_list (map msgLength xs) \<le> targetLength \<Longrightarrow> recentLoop xs acc rec = rev xs @ rec"
  by (induction xs arbitrary: acc rec) (auto simp: add.assoc)

lemma recentLoop_snoc_over:
  "targetLength < acc + sum_list (map msgLength xs) + msgLength m \<Longrightarrow>
   recentLoop (xs @ [m]) acc rec = recentLoop xs acc rec"
  by (induction xs arbitrary: acc rec) (auto simp: add.assoc)

lemma sum_map_rev: "sum_list (map msgLength (rev xs)) = sum_list (map msgLength xs)"
  by (induction xs) simp_all

lemma recentLoop_suffix: "suffix (recentLoop (rev xs) 0 []) xs"
proof -
  obtain k where "recentLoop (rev xs) 0 [] = rev (take k (rev xs)) @ []"
    using recentLoop_take[of "rev xs" 0 "[]"] by blast
  then have "recentLoop (rev xs) 0 [] = drop (length xs - k) xs"
    by (simp add: rev_take)
  then show ?thesis by (simp add: suffix_drop)
qed

lemma recentLoop_sum: "sum_list (map msgLength (recentLoop (rev xs) 0 [])) \<le> targetLength"
proof -
  obtain k where k: "recentLoop (rev xs) 0 [] = rev (take k (rev xs)) @ []"
    "0 < k \<longrightarrow> 0 + sum_list (map msgLength (take k (rev xs))) \<le> targetLength"
    using recentLoop_take[of "rev xs" 0 "[]"] by blast
  show ?thesis
  proof (cases "k = 0")
    case True
    then show ?thesis using k(1) by simp
  next
    case False
    then have "sum_list (map msgLength (take k (rev xs))) \<le> targetLength" using k(2) by simp
    moreover have "sum_list (map msgLength (rev (take k (rev xs))))
                     = sum_list (map msgLength (take k (rev xs)))"
      by (rule sum_map_rev)
    ultimately show ?thesis using k(1) by simp
  qed
qed

lemma sum_take_mono:
  "i \<le> j \<Longrightarrow> sum_list (map msgLength (take i ys)) \<le> sum_list (map msgLength (take j ys))"
proof (induction ys arbitrary: i j)
  case Nil
  then show ?case by simp
next
  case (Cons y ys)
  then show ?case by (cases i; cases j) auto
qed

lemma recentLoop_maximal:
  assumes "suffix ks xs" and "sum_list (map msgLength ks) \<le> targetLength"
  shows "length ks \<le> length (recentLoop (rev xs) 0 [])"
proof -
  obtain k where k: "k \<le> length (rev xs)" "recentLoop (rev xs) 0 [] = rev (take k (rev xs)) @ []"
    "k < length (rev xs) \<longrightarrow> targetLength < 0 + sum_list (map msgLength (take (Suc k) (rev xs)))"
    using recentLoop_take[of "rev xs" 0 "[]"] by blast
  have len: "length (recentLoop (rev xs) 0 []) = k" using k(1,2) by simp
  show ?thesis
  proof (rule ccontr)
    assume "\<not> length ks \<le> length (recentLoop (rev xs) 0 [])"
    then have lt: "Suc k \<le> length ks" using len by simp
    from assms(1) obtain zs where xs: "xs = zs @ ks" by (auto simp: suffix_def)
    then have "k < length (rev xs)" using lt by simp
    then have big: "targetLength < sum_list (map msgLength (take (Suc k) (rev xs)))"
      using k(3) by simp
    have "take (Suc k) (rev xs) = take (Suc k) (rev ks)" using xs lt by simp
    then have "sum_list (map msgLength (take (Suc k) (rev xs)))
                 \<le> sum_list (map msgLength (take (length ks) (rev ks)))"
      using sum_take_mono[OF lt, of "rev ks"] by simp
    also have "\<dots> = sum_list (map msgLength ks)"
      by (simp add: sum_map_rev)
    finally show False using big assms(2) by simp
  qed
qed

text \<open>The loop of the code and the wording of the specification select the same messages.\<close>

lemma recentLoop_spec: "recentLoop (rev ms) 0 [] = specRecentSuffix targetLength ms"
proof (induction ms)
  case Nil
  then show ?case by simp
next
  case (Cons m ms)
  show ?case
  proof (cases "calculateHistoryLength (m # ms) \<le> targetLength")
    case True
    then have "0 + sum_list (map msgLength (rev (m # ms))) \<le> targetLength"
      by (simp add: calculateHistoryLength_sum sum_map_rev)
    from recentLoop_all[OF this, of "[]"] True show ?thesis by simp
  next
    case False
    then have "targetLength < 0 + sum_list (map msgLength (rev ms)) + msgLength m"
      by (simp add: calculateHistoryLength_sum sum_map_rev)
    from recentLoop_snoc_over[OF this, of "[]"] False Cons.IH show ?thesis by simp
  qed
qed

text \<open>
  \<open>specRecentSuffix\<close> is the maximal most-recent suffix within the budget: it is a suffix,
  it fits, and no suffix that fits is longer.
\<close>

lemma specRecentSuffix_maximal:
  "suffix (specRecentSuffix targetLength ms) ms
   \<and> calculateHistoryLength (specRecentSuffix targetLength ms) \<le> targetLength
   \<and> (suffix ks ms \<and> calculateHistoryLength ks \<le> targetLength
        \<longrightarrow> length ks \<le> length (specRecentSuffix targetLength ms))"
  using recentLoop_suffix[of ms] recentLoop_sum[of ms] recentLoop_maximal[of ks ms]
  by (simp add: recentLoop_spec calculateHistoryLength_sum)

lemma find_system_mem:
  "find (\<lambda>msg. role msg = System) h = Some sp \<Longrightarrow> sp \<in> set h \<and> role sp = System"
  by (induction h) (auto split: if_splits)

lemma sum_split_system:
  "sum_list (map msgLength h) =
     sum_list (map msgLength (filter (\<lambda>msg. role msg = System) h))
     + sum_list (map msgLength (filter (\<lambda>msg. role msg \<noteq> System) h))"
  by (induction h) auto

lemma member_le_sum: "m \<in> set xs \<Longrightarrow> msgLength m \<le> sum_list (map msgLength xs)"
  by (induction xs) auto

lemma suffix_sum_le:
  "suffix ks xs \<Longrightarrow> sum_list (map msgLength ks) \<le> sum_list (map msgLength xs)"
  by (auto simp: suffix_def)

lemma nonsystem_suffix:
  assumes "suffix ks (filter (\<lambda>msg. role msg \<noteq> System) h)"
  shows "filter (\<lambda>msg. role msg \<noteq> System) ks = ks"
proof (rule filter_True)
  show "\<forall>x\<in>set ks. role x \<noteq> System"
  proof
    fix x assume "x \<in> set ks"
    then have "x \<in> set (filter (\<lambda>msg. role msg \<noteq> System) h)"
      using set_mono_suffix[OF assms] by (rule subsetD[rotated])
    then show "role x \<noteq> System" by simp
  qed
qed

text \<open>
  Where the system instruction, at index 0, is the only message with the role system, as
  in every history of the structured variant, the code trims as the specification words
  it: at 640000 characters or more, the system instruction followed by the maximal
  most-recent suffix of the remaining messages within 400000; below, the history unchanged.
\<close>

lemma trimHistory_refines_spec:
  assumes "role sys = System"
    and "list_all (\<lambda>msg. role msg \<noteq> System) rest"
  shows "trimHistory (sys # rest) = specTrim (sys # rest)"
proof -
  have f: "filter (\<lambda>msg. role msg \<noteq> System) rest = rest"
    using assms(2) by (simp add: list_all_iff filter_id_conv)
  show ?thesis
    using assms(1) f
    by (simp add: trimHistory_cases specTrim_def recentLoop_spec TRIM_THRESHOLD_val
        targetLength_val)
qed

lemma trimHistory_refines_spec_example:
  "role exSystem = System
   \<and> list_all (\<lambda>msg. role msg \<noteq> System) [exOldCommand, exAssistant, exRecentResult]
   \<and> 640000 \<le> calculateHistoryLength [exSystem, exOldCommand, exAssistant, exRecentResult]
   \<and> trimHistory [exSystem, exOldCommand, exAssistant, exRecentResult]
       = specTrim [exSystem, exOldCommand, exAssistant, exRecentResult]
   \<and> specTrim [exSystem, exOldCommand, exAssistant, exRecentResult]
       = [exSystem, exAssistant, exRecentResult]"
proof -
  have r: "role exSystem = System"
    by (simp add: example_defs)
  have a: "list_all (\<lambda>msg. role msg \<noteq> System) [exOldCommand, exAssistant, exRecentResult]"
    by (simp add: example_defs)
  have v: "specTrim [exSystem, exOldCommand, exAssistant, exRecentResult]
             = [exSystem, exAssistant, exRecentResult]"
    by (simp add: specTrim_def calculateHistoryLength_def example_defs)
  have n: "640000 \<le> calculateHistoryLength [exSystem, exOldCommand, exAssistant, exRecentResult]"
    by (simp add: calculateHistoryLength_def example_defs)
  show ?thesis
    using r a n v trimHistory_refines_spec[OF r a] by simp
qed

text \<open>
  Claim C5: for any sequence of append and trim operations on a store whose message at
  index 0 is the system instruction, the message at index 0 after every operation (after
  each prefix of the sequence) is still that system instruction; trimming never evicts it.
\<close>

theorem system_instruction_stays_first:
  assumes "role sys = System"
  shows "applyOps (sys # rest) (take n ops) \<noteq> [] \<and> applyOps (sys # rest) (take n ops) ! 0 = sys"
proof -
  have step: "\<exists>r'. applyOp (sys # r) op = sys # r'" for r op
  proof (cases op)
    case (Append msg)
    then show ?thesis by simp
  next
    case Trim
    then show ?thesis using assms by (simp add: trimHistory_cases)
  qed
  have run: "\<exists>r'. foldl applyOp (sys # r) os = sys # r'" for r os
  proof (induction os arbitrary: r)
    case Nil
    then show ?case by simp
  next
    case (Cons op os)
    obtain r1 where "applyOp (sys # r) op = sys # r1" using step by blast
    then show ?case using Cons.IH[of r1] by simp
  qed
  obtain r' where "applyOps (sys # rest) (take n ops) = sys # r'"
    using run[of rest "take n ops"] by (auto simp: applyOps_def)
  then show ?thesis by simp
qed

theorem system_instruction_stays_first_witness:
  "role exSystem = System
   \<and> applyOps [exSystem] (take 4 [Append exOldCommand, Append exAssistant, Append exRecentResult, Trim]) \<noteq> []
   \<and> applyOps [exSystem] (take 4 [Append exOldCommand, Append exAssistant, Append exRecentResult, Trim]) ! 0
       = exSystem"
proof -
  have r: "role exSystem = System"
    by (simp add: example_defs)
  show ?thesis
    using r system_instruction_stays_first[OF r, of "[]" 4
        "[Append exOldCommand, Append exAssistant, Append exRecentResult, Trim]"]
    by simp
qed

text \<open>
  Claim C6: trimming is idempotent: for every history, trimming twice in a row gives
  exactly the history that trimming once gives.
\<close>

theorem trimHistory_idempotent: "trimHistory (trimHistory h) = trimHistory h"
proof (cases "calculateHistoryLength h < TRIM_THRESHOLD")
  case True
  then show ?thesis by (simp add: trimHistory_cases)
next
  case big: False
  show ?thesis
  proof (cases "find (\<lambda>msg. role msg = System) h")
    case None
    then show ?thesis using big by (simp add: trimHistory_cases)
  next
    case (Some sp)
    let ?kept = "recentLoop (rev (filter (\<lambda>msg. role msg \<noteq> System) h)) 0 []"
    have t: "trimHistory h = sp # ?kept" using big Some by (simp add: trimHistory_cases)
    have sys: "role sp = System" using find_system_mem[OF Some] by simp
    have others: "filter (\<lambda>msg. role msg \<noteq> System) (sp # ?kept) = ?kept"
      using sys nonsystem_suffix[OF recentLoop_suffix] by simp
    have again: "recentLoop (rev ?kept) 0 [] = ?kept"
      using recentLoop_all[of 0 "rev ?kept" "[]"]
        recentLoop_sum[of "filter (\<lambda>msg. role msg \<noteq> System) h"]
      by (simp add: sum_map_rev)
    have "trimHistory (sp # ?kept) = sp # ?kept"
      using sys others again by (simp add: trimHistory_cases)
    then show ?thesis using t by simp
  qed
qed

text \<open>
  Claim C7: for every history, trimming never increases the total string-content length,
  and when a system-instruction message is present (the first message with the role
  system) the total after trimming is never below the length of that message alone.
\<close>

theorem trimHistory_size:
  "calculateHistoryLength (trimHistory h) \<le> calculateHistoryLength h
   \<and> (find (\<lambda>msg. role msg = System) h = Some sp
        \<longrightarrow> msgLength sp \<le> calculateHistoryLength (trimHistory h))"
proof (cases "calculateHistoryLength h < TRIM_THRESHOLD \<or> find (\<lambda>msg. role msg = System) h = None")
  case True
  then have "trimHistory h = h" by (auto simp: trimHistory_cases)
  then show ?thesis
    using find_system_mem[of h sp] member_le_sum[of sp h] by (auto simp: calculateHistoryLength_sum)
next
  case False
  then obtain sp' where sp': "find (\<lambda>msg. role msg = System) h = Some sp'" by auto
  let ?others = "filter (\<lambda>msg. role msg \<noteq> System) h"
  let ?kept = "recentLoop (rev ?others) 0 []"
  have t: "trimHistory h = sp' # ?kept" using False sp' by (simp add: trimHistory_cases)
  have "sp' \<in> set (filter (\<lambda>msg. role msg = System) h)" using find_system_mem[OF sp'] by simp
  then have a: "msgLength sp' \<le> sum_list (map msgLength (filter (\<lambda>msg. role msg = System) h))"
    by (rule member_le_sum)
  have b: "sum_list (map msgLength ?kept) \<le> sum_list (map msgLength ?others)"
    using suffix_sum_le[OF recentLoop_suffix] .
  show ?thesis using a b sp' t sum_split_system[of h] by (simp add: calculateHistoryLength_sum)
qed

theorem trimHistory_size_witness:
  "find (\<lambda>msg. role msg = System) [exSystem, exOldCommand, exAssistant, exRecentResult] = Some exSystem
   \<and> calculateHistoryLength (trimHistory [exSystem, exOldCommand, exAssistant, exRecentResult])
       \<le> calculateHistoryLength [exSystem, exOldCommand, exAssistant, exRecentResult]
   \<and> msgLength exSystem
       \<le> calculateHistoryLength (trimHistory [exSystem, exOldCommand, exAssistant, exRecentResult])"
proof -
  have f: "find (\<lambda>msg. role msg = System) [exSystem, exOldCommand, exAssistant, exRecentResult]
             = Some exSystem"
    by (simp add: example_defs)
  show ?thesis
    using f trimHistory_size[of "[exSystem, exOldCommand, exAssistant, exRecentResult]" exSystem]
    by simp
qed

section \<open>Properties of the command loop\<close>

lemmas run_defs =
  exEnv_def exLoopingEnv_def scriptedEnv_def replyList_def exampleParse_def exampleStringify_def
  okProvider_def failingProvider_def exTools_def exToolCallMessage_def doneHello_def
  toolSearch_def doneFound_def searchArguments_def toolFailedText_def moduleState_def
  moduleState_text_def customFunctions_def executeCommand_def executeCommand_text_def
  initialize_def initialize_text_def loopBody_def loopBody_text_def interpretDirective_def
  llmOutputOf_def
  executeCustomFunction_def isCustomFunction_def convertMCPToolToOpenAIFunction_def
  push_def logEvent_def trimHistoryCall_def textMessage_def toolMessage_def errorPayload_def
  templateValue_def toolResultText_def trim_def isWhiteSpace_def removeBackslashes_def
  trimHistory_def calculateHistoryLength_def TRIM_THRESHOLD_def MAX_CONTEXT_CHARS_def
  MAX_CONTEXT_TOKENS_def ESTIMATED_CHARS_PER_TOKEN_def MAX_ITERATIONS_def
  MAX_ITERATIONS_text_def cannedMessage_def agentLoop.simps
  agentLoop_text.simps Let_def

text \<open>
  Claim C1: a failure of a tool invocation is appended to the history as an error-payload
  tool-result message and the loop goes on to the next LLM request. The free-text variant
  does not do this. Its LLM asks for the tool search and the provider throws: the
  \<^verbatim>\<open>catch\<close> written for output that is not JSON receives the error, the directive itself is
  returned as the final answer, the history ends with the assistant's directive, and the
  LLM was asked once. The structured variant, on the same failure, appends the error
  payload as a tool message and asks the LLM again.
\<close>

theorem tool_failure_ends_free_text_turn:
  "executeCommand_text
       (exEnv failingProvider
          [Some (textMessage Assistant toolSearch), Some (textMessage Assistant doneFound)])
       ''find x'' moduleState_text 0
     = (Inr (JString toolSearch),
        \<lparr>chatHistory =
           [textMessage System ''You are a helpful assistant.'', textMessage User ''find x'',
            textMessage Assistant toolSearch],
         isInitialized = True, openAITools = [],
         oplog =
           [EvPush (textMessage System ''You are a helpful assistant.''),
            EvPush (textMessage User ''find x''), EvTrim, EvRequest,
            EvPush (textMessage Assistant toolSearch),
            EvCallTool (JString ''search'') (JObject [(''q'', JString ''x'')])]\<rparr>,
        1)
   \<and> chatHistory (fst (snd (executeCommand
         (exEnv failingProvider [Some exToolCallMessage, Some (textMessage Assistant ''found it'')])
         ''find x'' moduleState 0)))
     = [textMessage System ''You are a helpful assistant.'', textMessage User ''find x'',
        exToolCallMessage, toolMessage ''call_1'' toolFailedText,
        textMessage Assistant ''found it'']"
  by (simp add: run_defs)

text \<open>
  Claim C3: at 640000 characters or more, trimming rebuilds the history as the system
  instruction followed by the maximal most-recent suffix of all remaining messages within
  400000 characters. The code does not do this in the free-text variant, which pushes a
  tool result with the role system: \<^verbatim>\<open>trimHistory\<close> takes the messages whose role is not
  system as the remaining ones, so the trim that follows a tool result of 700000
  characters drops that result, the most recent message, and keeps the older command and
  directive, where the claim keeps the system instruction alone. The history at the end
  of the command that received the result holds no tool result.
\<close>

theorem trimHistory_drops_newest_tool_result:
  "trimHistory [exSystem, exUser, exAssistant, exPageResult] = [exSystem, exUser, exAssistant]
   \<and> specTrim [exSystem, exUser, exAssistant, exPageResult] = [exSystem]
   \<and> trimHistory [exSystem, exUser, exAssistant, exPageResult]
       \<noteq> specTrim [exSystem, exUser, exAssistant, exPageResult]
   \<and> chatHistory (fst (snd (executeCommand_text exPageEnv ''find x'' moduleState_text 0)))
       = [textMessage System ''You are a helpful assistant.'', textMessage User ''find x'',
          textMessage Assistant toolSearch, textMessage Assistant doneFound]"
  by (simp add: trimHistory_def specTrim_def calculateHistoryLength_def example_defs
      TRIM_THRESHOLD_val targetLength_val msgLength_def exPageEnv_def pageText_def
      pageProvider_def pageStringify_def run_defs)

text \<open>
  In the structured variant a call of the provider that throws becomes a tool message with
  the error payload, and the remaining calls of the reply are run.
\<close>

lemma runToolCalls_captures_failure:
  assumes "jsonParse env arguments = Some functionArgs"
    and "\<not> isCustomFunction functionName"
    and "callTool env w (JString functionName) functionArgs = (Inl e, w1)"
  shows "runToolCalls env (FunctionCall callId functionName arguments # calls) s w
           = runToolCalls env calls
               (push (toolMessage callId (jsonStringify env (errorPayload e)))
                  (logEvent (EvCallTool (JString functionName) functionArgs) s))
               w1"
  using assms by simp

text \<open>
  The first \<^verbatim>\<open>initialize\<close> that succeeds leaves exactly the converted tools of the provider
  in \<^verbatim>\<open>openAITools\<close>, whatever the variable held before.
\<close>

lemma initialize_overwrites_tools:
  assumes "\<not> isInitialized s"
    and "connect env w = (None, w1)"
    and "getAllTools env w1 = (Inr mcpTools, w2)"
  shows "openAITools (fst (snd (initialize env s w)))
           = map convertMCPToolToOpenAIFunction mcpTools"
  using assms by (simp add: initialize_def push_def logEvent_def Let_def)

text \<open>
  Claim C2: after setup the tools declared to the LLM contain every local descriptor and
  every descriptor of the provider. The code does not do this: the module puts the local
  descriptor describe_image into \<^verbatim>\<open>openAITools\<close> when it is loaded, and \<^verbatim>\<open>initialize\<close>
  then assigns the converted tools of the provider to the variable, so that describe_image
  is no longer declared.
\<close>

theorem initialize_drops_local_tools:
  "map fn_name (openAITools moduleState) = [''describe_image'']
   \<and> map fn_name (openAITools (fst (snd (initialize (exEnv okProvider []) moduleState 0))))
       = [''search'']"
  by (simp add: run_defs)

text \<open>
  In the structured variant no pass of the loop calls \<^verbatim>\<open>trimHistory\<close>, whatever the LLM
  and the tools answer: a command that gets through \<^verbatim>\<open>initialize\<close> makes exactly one
  check, the one after the user command.
\<close>

lemma trimCount_push [simp]: "trimCount (oplog (push msg s)) = trimCount (oplog s)"
  by (simp add: trimCount_def push_def logEvent_def)

lemma trimCount_logEvent [simp]:
  "trimCount (oplog (logEvent ev s)) = trimCount (oplog s) + (if ev = EvTrim then 1 else 0)"
  by (simp add: trimCount_def logEvent_def)

lemma trimCount_trimHistoryCall [simp]:
  "trimCount (oplog (trimHistoryCall s)) = trimCount (oplog s) + 1"
  by (simp add: trimCount_def trimHistoryCall_def logEvent_def)

lemma executeCustomFunction_never_trims:
  "trimCount (oplog (fst (snd (executeCustomFunction env name args cid s w)))) = trimCount (oplog s)"
  by (simp add: executeCustomFunction_def Let_def split: sum.splits prod.splits)

lemma runToolCalls_never_trims:
  "trimCount (oplog (fst (snd (runToolCalls env calls s w)))) = trimCount (oplog s)"
proof (induction env calls s w rule: runToolCalls.induct)
  case (1 env s w)
  then show ?case by simp
next
  case (2 env callId kind calls s w)
  then show ?case by simp
next
  case (3 env callId functionName arguments calls s w)
  show ?case
  proof (cases "jsonParse env arguments")
    case None
    then show ?thesis by simp
  next
    case (Some functionArgs)
    show ?thesis
    proof (cases "isCustomFunction functionName")
      case True
      obtain r s1 w1 where c: "executeCustomFunction env functionName functionArgs callId s w = (r, s1, w1)"
        by (cases "executeCustomFunction env functionName functionArgs callId s w") auto
      have k: "trimCount (oplog s1) = trimCount (oplog s)"
        using executeCustomFunction_never_trims[of env functionName functionArgs callId s w] c by simp
      show ?thesis
      proof (cases r)
        case None
        have c': "(None, (s1, w1)) = executeCustomFunction env functionName functionArgs callId s w"
          using c None by simp
        show ?thesis
          using Some True c None k "3.IH"(1)[OF Some True c' refl refl] by simp
      next
        case (Some e)
        then show ?thesis using \<open>jsonParse env arguments = Some functionArgs\<close> True c k by simp
      qed
    next
      case False
      obtain r w1 where c: "callTool env w (JString functionName) functionArgs = (r, w1)"
        by (cases "callTool env w (JString functionName) functionArgs") auto
      show ?thesis
      proof (cases r)
        case (Inl e)
        then show ?thesis using Some False c "3.IH"(2,3) by (simp add: Let_def)
      next
        case (Inr mcpResult)
        then show ?thesis using Some False c "3.IH"(2,3) by (simp add: Let_def)
      qed
    qed
  qed
qed

lemma loopBody_never_trims:
  "trimCount (oplog (fst (snd (loopBody env s w)))) = trimCount (oplog s)"
proof -
  obtain r w1 where c: "createCompletion env w (chatHistory s) (Some (openAITools s)) = (r, w1)"
    by (cases "createCompletion env w (chatHistory s) (Some (openAITools s))") auto
  show ?thesis
  proof (cases r)
    case (Inl e)
    then show ?thesis using c by (simp add: loopBody_def)
  next
    case (Inr reply)
    show ?thesis
    proof (cases reply)
      case None
      then show ?thesis using c Inr by (simp add: loopBody_def)
    next
      case (Some msg)
      let ?s1 = "push msg (logEvent EvRequest s)"
      have k: "trimCount (oplog (fst (snd (runToolCalls env (tool_calls msg) ?s1 w1))))
                 = trimCount (oplog s)"
        using runToolCalls_never_trims[of env "tool_calls msg" ?s1 w1] by simp
      show ?thesis
        using c Inr Some k
        by (auto simp: loopBody_def Let_def split: prod.splits option.splits)
    qed
  qed
qed

lemma agentLoop_never_trims:
  "trimCount (oplog (fst (snd (agentLoop env iteration s w)))) = trimCount (oplog s)"
proof (induction env iteration s w rule: agentLoop.induct)
  case (1 env iteration s w)
  show ?case
  proof (cases "iteration < MAX_ITERATIONS")
    case False
    then show ?thesis by (subst agentLoop.simps) simp
  next
    case True
    obtain r s1 w1 where b: "loopBody env s w = (r, s1, w1)"
      by (cases "loopBody env s w") auto
    have k: "trimCount (oplog s1) = trimCount (oplog s)"
      using loopBody_never_trims[of env s w] b by simp
    show ?thesis
    proof (cases r)
      case Continue
      have b': "(Continue, (s1, w1)) = loopBody env s w" using b Continue by simp
      show ?thesis
        using True b Continue k "1.IH"[OF True b' refl refl]
        by (subst agentLoop.simps) simp
    next
      case (Break m)
      then show ?thesis using True b k by (subst agentLoop.simps) simp
    next
      case (Throw e)
      then show ?thesis using True b k by (subst agentLoop.simps) simp
    qed
  qed
qed

lemma executeCommand_trims_once:
  assumes "initialize env s w = (None, s0, w0)"
  shows "trimCount (oplog (fst (snd (executeCommand env userCommand s w))))
           = trimCount (oplog s0) + 1"
proof -
  let ?s1 = "trimHistoryCall (push (textMessage User userCommand) s0)"
  obtain r s2 w2 where l: "agentLoop env 0 ?s1 w0 = (r, s2, w2)"
    by (cases "agentLoop env 0 ?s1 w0") auto
  have "trimCount (oplog s2) = trimCount (oplog ?s1)"
    using agentLoop_never_trims[of env 0 ?s1 w0] l by simp
  then show ?thesis
    using assms l by (auto simp: executeCommand_def Let_def split: sum.splits prod.splits)
qed

text \<open>
  Claim C4: the trimming check runs after the user command is appended and after every
  tool-result message is appended, in both variants. The structured variant does not do
  this: its recorded operations for a command with one tool call hold a single check,
  after the user command, and the push of the tool result is followed by the next request.
  The free-text variant, on the same command, checks after the tool result.
\<close>

theorem structured_variant_trims_once:
  "oplog (fst (snd (executeCommand
       (exEnv okProvider [Some exToolCallMessage, Some (textMessage Assistant ''found it'')])
       ''find x'' moduleState 0)))
     = [EvPush (textMessage System ''You are a helpful assistant.''),
        EvPush (textMessage User ''find x''), EvTrim,
        EvRequest, EvPush exToolCallMessage,
        EvCallTool (JString ''search'') (JObject [(''q'', JString ''x'')]),
        EvPush (toolMessage ''call_1'' ''true''),
        EvRequest, EvPush (textMessage Assistant ''found it'')]
   \<and> oplog (fst (snd (executeCommand_text
       (exEnv okProvider
          [Some (textMessage Assistant toolSearch), Some (textMessage Assistant doneFound)])
       ''find x'' moduleState_text 0)))
     = [EvPush (textMessage System ''You are a helpful assistant.''),
        EvPush (textMessage User ''find x''), EvTrim,
        EvRequest, EvPush (textMessage Assistant toolSearch),
        EvCallTool (JString ''search'') (JObject [(''q'', JString ''x'')]),
        EvPush (textMessage System
                  (''Tool execution result:'' @ [CHR 0x0A] @ ''Tool: search'' @ [CHR 0x0A]
                   @ ''Result: true'')),
        EvTrim,
        EvRequest, EvPush (textMessage Assistant doneFound)]"
  by (simp add: run_defs)

lemma agentLoop_continues:
  "iteration + n = MAX_ITERATIONS \<Longrightarrow> continues (loopBody env) n s w = Some (s', w')
     \<Longrightarrow> agentLoop env iteration s w = (Inr (MAX_ITERATIONS, []), s', w')"
proof (induction n arbitrary: iteration s w)
  case 0
  then show ?case by (simp add: agentLoop.simps)
next
  case (Suc n)
  from Suc.prems(2) obtain s1 w1 where
    body: "loopBody env s w = (Continue, s1, w1)"
    and rest: "continues (loopBody env) n s1 w1 = Some (s', w')"
    by (auto split: prod.splits stepResult.splits)
  have "agentLoop env (iteration + 1) s1 w1 = (Inr (MAX_ITERATIONS, []), s', w')"
    using Suc.IH[of "iteration + 1" s1 w1] Suc.prems(1) rest by simp
  then show ?case using Suc.prems(1) body by (subst agentLoop.simps) simp
qed

lemma agentLoop_text_continues:
  "iteration + n = MAX_ITERATIONS_text \<Longrightarrow> continues (loopBody_text env) n s w = Some (s', w')
     \<Longrightarrow> agentLoop_text env iteration s w
          = (Inr (MAX_ITERATIONS_text, False, JString []), s', w')"
proof (induction n arbitrary: iteration s w)
  case 0
  then show ?case by (simp add: agentLoop_text.simps)
next
  case (Suc n)
  from Suc.prems(2) obtain s1 w1 where
    body: "loopBody_text env s w = (Continue, s1, w1)"
    and rest: "continues (loopBody_text env) n s1 w1 = Some (s', w')"
    by (auto split: prod.splits stepResult.splits)
  have "agentLoop_text env (iteration + 1) s1 w1
          = (Inr (MAX_ITERATIONS_text, False, JString []), s', w')"
    using Suc.IH[of "iteration + 1" s1 w1] Suc.prems(1) rest by simp
  then show ?case using Suc.prems(1) body by (subst agentLoop_text.simps) simp
qed

lemma agentLoop_break:
  "continues (loopBody env) n s w = Some (s1, w1) \<Longrightarrow> iteration + n < MAX_ITERATIONS
     \<Longrightarrow> loopBody env s1 w1 = (Break m, s2, w2)
     \<Longrightarrow> agentLoop env iteration s w = (Inr (iteration + n + 1, m), s2, w2)"
proof (induction n arbitrary: iteration s w)
  case 0
  then show ?case by (subst agentLoop.simps) simp
next
  case (Suc n)
  from Suc.prems(1) obtain sa wa where
    body: "loopBody env s w = (Continue, sa, wa)"
    and rest: "continues (loopBody env) n sa wa = Some (s1, w1)"
    by (auto split: prod.splits stepResult.splits)
  have "agentLoop env (iteration + 1) sa wa = (Inr (iteration + 1 + n + 1, m), s2, w2)"
    using Suc.IH[of sa wa "iteration + 1"] Suc.prems(2,3) rest by simp
  then show ?case using Suc.prems(2) body by (subst agentLoop.simps) simp
qed

lemma agentLoop_text_break:
  "continues (loopBody_text env) n s w = Some (s1, w1) \<Longrightarrow> iteration + n < MAX_ITERATIONS_text
     \<Longrightarrow> loopBody_text env s1 w1 = (Break m, s2, w2)
     \<Longrightarrow> agentLoop_text env iteration s w = (Inr (iteration + n + 1, True, m), s2, w2)"
proof (induction n arbitrary: iteration s w)
  case 0
  then show ?case by (subst agentLoop_text.simps) simp
next
  case (Suc n)
  from Suc.prems(1) obtain sa wa where
    body: "loopBody_text env s w = (Continue, sa, wa)"
    and rest: "continues (loopBody_text env) n sa wa = Some (s1, w1)"
    by (auto split: prod.splits stepResult.splits)
  have "agentLoop_text env (iteration + 1) sa wa
          = (Inr (iteration + 1 + n + 1, True, m), s2, w2)"
    using Suc.IH[of sa wa "iteration + 1"] Suc.prems(2,3) rest by simp
  then show ?case using Suc.prems(2) body by (subst agentLoop_text.simps) simp
qed

lemma degenerateReply_break:
  "createCompletion env w (chatHistory s) (Some (openAITools s)) = (Inr reply, w1)
     \<Longrightarrow> degenerateReply reply \<Longrightarrow> \<exists>s1. loopBody env s w = (Break [], s1, w1)"
  by (auto simp: loopBody_def degenerateReply_def Let_def split: option.splits)

lemma degenerateDirective_break:
  "parsed \<noteq> JNull \<Longrightarrow> degenerateDirective parsed
     \<Longrightarrow> interpretDirective env parsed s w = (Inr (Break (JString [])), s, w)"
  by (cases parsed)
    (auto simp: interpretDirective_def degenerateDirective_def property_def
      split: option.splits if_splits)

lemma degenerateDirective_body:
  "createCompletion env w (chatHistory s) None = (Inr reply, w1)
     \<Longrightarrow> jsonParse env (llmOutputOf reply) = Some parsed
     \<Longrightarrow> parsed \<noteq> JNull \<Longrightarrow> degenerateDirective parsed
     \<Longrightarrow> \<exists>s1. loopBody_text env s w = (Break (JString []), s1, w1)"
  by (simp add: loopBody_text_def Let_def degenerateDirective_break)

lemma cap_body_text:
  "w < 9 \<Longrightarrow> \<exists>s1. loopBody_text exCapEnv s w = (Continue, s1, Suc w)"
  by (simp add: exCapEnv_def run_defs)

lemma cap_continues_text:
  "w + n \<le> 9 \<Longrightarrow> \<exists>s'. continues (loopBody_text exCapEnv) n s w = Some (s', w + n)"
proof (induction n arbitrary: s w)
  case 0
  then show ?case by simp
next
  case (Suc n)
  then have "w < 9" by simp
  then obtain s1 where "loopBody_text exCapEnv s w = (Continue, s1, Suc w)"
    using cap_body_text by blast
  then show ?case using Suc.IH[of "Suc w" s1] Suc.prems by simp
qed

lemma cap_body:
  "w < 19 \<Longrightarrow> \<exists>s1. loopBody exCapEnvStructured s w = (Continue, s1, Suc w)"
  by (simp add: exCapEnvStructured_def run_defs)

lemma cap_continues:
  "w + n \<le> 19 \<Longrightarrow> \<exists>s'. continues (loopBody exCapEnvStructured) n s w = Some (s', w + n)"
proof (induction n arbitrary: s w)
  case 0
  then show ?case by simp
next
  case (Suc n)
  then have "w < 19" by simp
  then obtain s1 where "loopBody exCapEnvStructured s w = (Continue, s1, Suc w)"
    using cap_body by blast
  then show ?case using Suc.IH[of "Suc w" s1] Suc.prems by simp
qed

text \<open>
  Claim C8, as stated, in the free-text variant: nine passes that end with a tool
  invocation and a tenth whose output is the empty object use the full cap of 10 requests
  and produce no final answer, and the command returns the empty string, not the canned
  message: the tenth pass sets \<^verbatim>\<open>taskComplete\<close>, and the check after the loop gives the
  canned message only when \<^verbatim>\<open>taskComplete\<close> is false.
\<close>

theorem cap_reached_free_text_counterexample:
  "snd (snd (executeCommand_text exCapEnv ''find x'' moduleState_text 0)) = 10
   \<and> fst (executeCommand_text exCapEnv ''find x'' moduleState_text 0) = Inr (JString [])
   \<and> fst (executeCommand_text exCapEnv ''find x'' moduleState_text 0)
       \<noteq> Inr (JString ''Maximum iterations reached. Task may be incomplete.'')"
proof -
  obtain t0 where i: "initialize_text exCapEnv moduleState_text 0 = (None, t0, 0)"
    by (simp add: exCapEnv_def run_defs)
  obtain t9 where c: "continues (loopBody_text exCapEnv) 9
      (trimHistoryCall (push (textMessage User ''find x'') t0)) 0 = Some (t9, 0 + 9)"
    using cap_continues_text[of 0 9] by auto
  obtain t10 where b: "loopBody_text exCapEnv t9 9 = (Break (JString []), t10, 10)"
    by (simp add: exCapEnv_def run_defs)
  have "agentLoop_text exCapEnv 0 (trimHistoryCall (push (textMessage User ''find x'') t0)) 0
          = (Inr (0 + 9 + 1, True, JString []), t10, 10)"
    using c b by (intro agentLoop_text_break[of exCapEnv 9 _ 0 t9 9]) (simp_all add: MAX_ITERATIONS_text_def)
  then have "executeCommand_text exCapEnv ''find x'' moduleState_text 0 = (Inr (JString []), t10, 10)"
    using i by (simp add: executeCommand_text_def)
  then show ?thesis by simp
qed


text \<open>
  Claim C8, amended: \<^verbatim>\<open>executeCommand\<close> returns the canned message "Maximum iterations
  reached. Task may be incomplete." as its result, and raises no error, when the command
  loop runs through its full iteration cap without a final answer in one of these ways:
  in the structured variant, 20 requests that all end with a tool invocation, or 19 such
  requests and a twentieth reply with neither text content nor tool calls (or no message);
  in the free-text variant, 10 requests that all end with a tool invocation.
\<close>

theorem iteration_cap_gives_canned_message:
  "(initialize env s w = (None, s0, w0)
      \<and> continues (loopBody env) 20 (trimHistoryCall (push (textMessage User userCommand) s0)) w0
          = Some (s', w')
     \<longrightarrow> executeCommand env userCommand s w
           = (Inr ''Maximum iterations reached. Task may be incomplete.'', s', w'))
   \<and> (initialize env s w = (None, s0, w0)
      \<and> continues (loopBody env) 19 (trimHistoryCall (push (textMessage User userCommand) s0)) w0
          = Some (s1, w1)
      \<and> createCompletion env w1 (chatHistory s1) (Some (openAITools s1)) = (Inr reply, w2)
      \<and> degenerateReply reply
     \<longrightarrow> fst (executeCommand env userCommand s w)
           = Inr ''Maximum iterations reached. Task may be incomplete.'')
   \<and> (initialize_text env s w = (None, t0, v0)
      \<and> continues (loopBody_text env) 10
            (trimHistoryCall (push (textMessage User userCommand) t0)) v0
          = Some (t', v')
     \<longrightarrow> executeCommand_text env userCommand s w
           = (Inr (JString ''Maximum iterations reached. Task may be incomplete.''), t', v'))"
proof (intro conjI impI)
  assume a: "initialize env s w = (None, s0, w0)
      \<and> continues (loopBody env) 20 (trimHistoryCall (push (textMessage User userCommand) s0)) w0
          = Some (s', w')"
  then have "agentLoop env 0 (trimHistoryCall (push (textMessage User userCommand) s0)) w0
               = (Inr (MAX_ITERATIONS, []), s', w')"
    by (intro agentLoop_continues[of 0 20]) (simp_all add: MAX_ITERATIONS_def)
  then show "executeCommand env userCommand s w
           = (Inr ''Maximum iterations reached. Task may be incomplete.'', s', w')"
    using a by (simp add: executeCommand_def cannedMessage_def)
next
  assume a: "initialize env s w = (None, s0, w0)
      \<and> continues (loopBody env) 19 (trimHistoryCall (push (textMessage User userCommand) s0)) w0
          = Some (s1, w1)
      \<and> createCompletion env w1 (chatHistory s1) (Some (openAITools s1)) = (Inr reply, w2)
      \<and> degenerateReply reply"
  then obtain s2 where b: "loopBody env s1 w1 = (Break [], s2, w2)"
    using degenerateReply_break[of env w1 s1 reply w2] by blast
  have "agentLoop env 0 (trimHistoryCall (push (textMessage User userCommand) s0)) w0
          = (Inr (0 + 19 + 1, []), s2, w2)"
    using a b by (intro agentLoop_break[of env 19 _ w0 s1 w1]) (simp_all add: MAX_ITERATIONS_def)
  then show "fst (executeCommand env userCommand s w)
           = Inr ''Maximum iterations reached. Task may be incomplete.''"
    using a by (simp add: executeCommand_def MAX_ITERATIONS_def cannedMessage_def)
next
  assume a: "initialize_text env s w = (None, t0, v0)
      \<and> continues (loopBody_text env) 10
            (trimHistoryCall (push (textMessage User userCommand) t0)) v0
          = Some (t', v')"
  then have "agentLoop_text env 0 (trimHistoryCall (push (textMessage User userCommand) t0)) v0
               = (Inr (MAX_ITERATIONS_text, False, JString []), t', v')"
    by (intro agentLoop_text_continues[of 0 10]) (simp_all add: MAX_ITERATIONS_text_def)
  then show "executeCommand_text env userCommand s w
           = (Inr (JString ''Maximum iterations reached. Task may be incomplete.''), t', v')"
    using a by (simp add: executeCommand_text_def cannedMessage_def)
qed

lemma looping_body:
  "\<exists>s1. loopBody (exLoopingEnv exToolCallMessage) s w = (Continue, s1, Suc w)"
  by (simp add: run_defs)

lemma looping_body_text:
  "\<exists>s1. loopBody_text (exLoopingEnv (textMessage Assistant toolSearch)) s w
          = (Continue, s1, Suc w)"
  by (simp add: run_defs)

lemma looping_continues:
  "\<exists>s' w'. continues (loopBody (exLoopingEnv exToolCallMessage)) n s w = Some (s', w')"
proof (induction n arbitrary: s w)
  case 0
  then show ?case by simp
next
  case (Suc n)
  obtain s1 where "loopBody (exLoopingEnv exToolCallMessage) s w = (Continue, s1, Suc w)"
    using looping_body by blast
  then show ?case using Suc.IH[of s1 "Suc w"] by simp
qed

lemma looping_continues_text:
  "\<exists>s' w'. continues (loopBody_text (exLoopingEnv (textMessage Assistant toolSearch))) n s w
            = Some (s', w')"
proof (induction n arbitrary: s w)
  case 0
  then show ?case by simp
next
  case (Suc n)
  obtain s1 where
    "loopBody_text (exLoopingEnv (textMessage Assistant toolSearch)) s w = (Continue, s1, Suc w)"
    using looping_body_text by blast
  then show ?case using Suc.IH[of s1 "Suc w"] by simp
qed

theorem iteration_cap_gives_canned_message_witness:
  "fst (initialize (exLoopingEnv exToolCallMessage) moduleState 0) = None
   \<and> fst (executeCommand (exLoopingEnv exToolCallMessage) ''find x'' moduleState 0)
       = Inr ''Maximum iterations reached. Task may be incomplete.''
   \<and> degenerateReply (Some exEmptyReply)
   \<and> snd (snd (executeCommand exCapEnvStructured ''find x'' moduleState 0)) = 20
   \<and> fst (executeCommand exCapEnvStructured ''find x'' moduleState 0)
       = Inr ''Maximum iterations reached. Task may be incomplete.''
   \<and> fst (initialize_text (exLoopingEnv (textMessage Assistant toolSearch)) moduleState_text 0)
       = None
   \<and> fst (executeCommand_text (exLoopingEnv (textMessage Assistant toolSearch)) ''find x''
            moduleState_text 0)
       = Inr (JString ''Maximum iterations reached. Task may be incomplete.'')"
proof -
  obtain s0 w0 where
    i: "initialize (exLoopingEnv exToolCallMessage) moduleState 0 = (None, s0, w0)"
    by (simp add: run_defs)
  obtain s' w' where c: "continues (loopBody (exLoopingEnv exToolCallMessage)) 20
      (trimHistoryCall (push (textMessage User ''find x'') s0)) w0 = Some (s', w')"
    using looping_continues by blast
  obtain u0 where
    k: "initialize exCapEnvStructured moduleState 0 = (None, u0, 0)"
    by (simp add: exCapEnvStructured_def run_defs)
  obtain u19 where e: "continues (loopBody exCapEnvStructured) 19
      (trimHistoryCall (push (textMessage User ''find x'') u0)) 0 = Some (u19, 0 + 19)"
    using cap_continues[of 0 19] by auto
  have r: "createCompletion exCapEnvStructured 19 (chatHistory u19) (Some (openAITools u19))
             = (Inr (Some exEmptyReply), 20)"
    by (simp add: exCapEnvStructured_def run_defs)
  have g: "degenerateReply (Some exEmptyReply)"
    by (simp add: degenerateReply_def exEmptyReply_def)
  obtain t0 v0 where
    j: "initialize_text (exLoopingEnv (textMessage Assistant toolSearch)) moduleState_text 0
          = (None, t0, v0)"
    by (simp add: run_defs)
  obtain t' v' where
    d: "continues (loopBody_text (exLoopingEnv (textMessage Assistant toolSearch))) 10
          (trimHistoryCall (push (textMessage User ''find x'') t0)) v0 = Some (t', v')"
    using looping_continues_text by blast
  have a: "executeCommand (exLoopingEnv exToolCallMessage) ''find x'' moduleState 0
      = (Inr ''Maximum iterations reached. Task may be incomplete.'', s', w')"
    using iteration_cap_gives_canned_message[where env="exLoopingEnv exToolCallMessage"
        and s=moduleState and w=0 and ?s0.0=s0 and ?w0.0=w0 and userCommand="''find x''"
        and s'=s' and w'=w'] i c
    by blast
  have m: "fst (executeCommand exCapEnvStructured ''find x'' moduleState 0)
      = Inr ''Maximum iterations reached. Task may be incomplete.''"
    using iteration_cap_gives_canned_message[where env=exCapEnvStructured and s=moduleState and w=0 and ?s0.0=u0 and ?w0.0=0
        and userCommand="''find x''" and ?s1.0=u19 and ?w1.0=19 and reply="Some exEmptyReply"
        and ?w2.0=20] k e r g
    by simp
  obtain u20 where b20: "loopBody exCapEnvStructured u19 19 = (Break [], u20, 20)"
    using degenerateReply_break[OF r g] by blast
  have "agentLoop exCapEnvStructured 0 (trimHistoryCall (push (textMessage User ''find x'') u0)) 0
          = (Inr (0 + 19 + 1, []), u20, 20)"
    using e b20
    by (intro agentLoop_break[of exCapEnvStructured 19 _ 0 u19 19]) (simp_all add: MAX_ITERATIONS_def)
  then have n: "snd (snd (executeCommand exCapEnvStructured ''find x'' moduleState 0)) = 20"
    using k by (simp add: executeCommand_def)
  have b: "executeCommand_text (exLoopingEnv (textMessage Assistant toolSearch)) ''find x''
             moduleState_text 0
      = (Inr (JString ''Maximum iterations reached. Task may be incomplete.''), t', v')"
    using iteration_cap_gives_canned_message[
        where env="exLoopingEnv (textMessage Assistant toolSearch)" and s=moduleState_text
        and w=0 and ?t0.0=t0 and ?v0.0=v0 and userCommand="''find x''" and t'=t' and v'=v'] j d
    by blast
  show ?thesis using a b m n g i j by simp
qed


lemmas rec_defs =
  recordingEnv_def replyList_def doneHello_def toolSearch_def doneFound_def
  executeCommand_text_def initialize_text_def loopBody_text_def interpretDirective_def
  llmOutputOf_def push_def logEvent_def trimHistoryCall_def textMessage_def trim_def
  isWhiteSpace_def MAX_ITERATIONS_text_def agentLoop_text.simps Let_def
  historyAfterSetup_def toolResultText_def templateValue_def

text \<open>
  Claim C9: under the free-text protocol, the assistant text
  \<^verbatim>\<open>{"done": true, "message": "hello"}\<close> yields the final answer hello with no tool
  invocation, and the assistant text \<^verbatim>\<open>{"tool": "search", "arguments": {"q": "x"}}\<close> followed
  on the next round by \<^verbatim>\<open>{"done": true, "message": "found it"}\<close> yields exactly one tool call,
  with the name search and the arguments \<^verbatim>\<open>{"q": "x"}\<close>, and the final answer found it.
  The calls are those the tool provider receives, as its world records them. In the first
  example it receives none, one request is made and the history ends with the
  assistant's text. In the second it receives exactly the one call, whatever it answers;
  the next round takes place when the call returns, and then two requests are made, the
  answer is found it, and the history holds the tool result, pushed and trimmed before
  the second request. This holds from any state of the agent, for any command, system
  prompt and tool list, given that \<^verbatim>\<open>JSON.parse\<close> reads the three texts as the objects they
  denote.
\<close>

theorem free_text_protocol_examples:
  assumes "parse doneHello = Some (JObject [(''done'', JBool True), (''message'', JString ''hello'')])"
    and "parse toolSearch
           = Some (JObject [(''tool'', JString ''search''),
                            (''arguments'', JObject [(''q'', JString ''x'')])])"
    and "parse doneFound
           = Some (JObject [(''done'', JBool True), (''message'', JString ''found it'')])"
  shows "fst (executeCommand_text
                (recordingEnv parse render provider tools prompt
                   (replyList [Some (textMessage Assistant doneHello)]))
                userCommand s (0, calls))
           = Inr (JString ''hello'')
       \<and> snd (snd (executeCommand_text
                (recordingEnv parse render provider tools prompt
                   (replyList [Some (textMessage Assistant doneHello)]))
                userCommand s (0, calls)))
           = (1, calls)
       \<and> chatHistory (fst (snd (executeCommand_text
                (recordingEnv parse render provider tools prompt
                   (replyList [Some (textMessage Assistant doneHello)]))
                userCommand s (0, calls))))
           = trimHistory (historyAfterSetup prompt s @ [textMessage User userCommand])
             @ [textMessage Assistant doneHello]
       \<and> snd (snd (snd (executeCommand_text
                (recordingEnv parse render provider tools prompt
                   (replyList [Some (textMessage Assistant toolSearch),
                               Some (textMessage Assistant doneFound)]))
                userCommand s (0, calls))))
           = calls @ [(JString ''search'', JObject [(''q'', JString ''x'')])]
       \<and> (provider (JString ''search'') (JObject [(''q'', JString ''x'')]) = Inr result
          \<longrightarrow> fst (executeCommand_text
                   (recordingEnv parse render provider tools prompt
                      (replyList [Some (textMessage Assistant toolSearch),
                                  Some (textMessage Assistant doneFound)]))
                   userCommand s (0, calls))
                = Inr (JString ''found it'')
              \<and> fst (snd (snd (executeCommand_text
                   (recordingEnv parse render provider tools prompt
                      (replyList [Some (textMessage Assistant toolSearch),
                                  Some (textMessage Assistant doneFound)]))
                   userCommand s (0, calls))))
                = 2
              \<and> chatHistory (fst (snd (executeCommand_text
                   (recordingEnv parse render provider tools prompt
                      (replyList [Some (textMessage Assistant toolSearch),
                                  Some (textMessage Assistant doneFound)]))
                   userCommand s (0, calls))))
                = trimHistory
                    (trimHistory (historyAfterSetup prompt s @ [textMessage User userCommand])
                     @ [textMessage Assistant toolSearch,
                        textMessage System
                          (''Tool execution result:'' @ [CHR 0x0A] @ ''Tool: search''
                           @ [CHR 0x0A] @ ''Result: '' @ render result)])
                  @ [textMessage Assistant doneFound])"
proof -
  have p1: "parse ''{\"done\": true, \"message\": \"hello\"}''
      = Some (JObject [(''done'', JBool True), (''message'', JString ''hello'')])"
    using assms(1) by (simp add: doneHello_def)
  have p2: "parse ''{\"tool\": \"search\", \"arguments\": {\"q\": \"x\"}}''
      = Some (JObject [(''tool'', JString ''search''),
                       (''arguments'', JObject [(''q'', JString ''x'')])])"
    using assms(2) by (simp add: toolSearch_def)
  have p3: "parse ''{\"done\": true, \"message\": \"found it\"}''
      = Some (JObject [(''done'', JBool True), (''message'', JString ''found it'')])"
    using assms(3) by (simp add: doneFound_def)
  show ?thesis
    by (cases "provider (JString ''search'') (JObject [(''q'', JString ''x'')])")
      (simp_all add: rec_defs p1 p2 p3)
qed

theorem free_text_protocol_examples_witness:
  "exampleParse doneHello = Some (JObject [(''done'', JBool True), (''message'', JString ''hello'')])
   \<and> exampleParse toolSearch
       = Some (JObject [(''tool'', JString ''search''),
                        (''arguments'', JObject [(''q'', JString ''x'')])])
   \<and> exampleParse doneFound
       = Some (JObject [(''done'', JBool True), (''message'', JString ''found it'')])
   \<and> okProvider (JString ''search'') (JObject [(''q'', JString ''x'')]) = Inr (JBool True)
   \<and> fst (executeCommand_text (exRecordingEnv okProvider [Some (textMessage Assistant doneHello)])
           ''find x'' moduleState_text (0, []))
       = Inr (JString ''hello'')
   \<and> snd (snd (executeCommand_text
           (exRecordingEnv okProvider [Some (textMessage Assistant doneHello)])
           ''find x'' moduleState_text (0, [])))
       = (1, [])
   \<and> fst (executeCommand_text
           (exRecordingEnv okProvider
              [Some (textMessage Assistant toolSearch), Some (textMessage Assistant doneFound)])
           ''find x'' moduleState_text (0, []))
       = Inr (JString ''found it'')
   \<and> snd (snd (executeCommand_text
           (exRecordingEnv okProvider
              [Some (textMessage Assistant toolSearch), Some (textMessage Assistant doneFound)])
           ''find x'' moduleState_text (0, [])))
       = (2, [(JString ''search'', JObject [(''q'', JString ''x'')])])"
proof -
  have a: "exampleParse doneHello
             = Some (JObject [(''done'', JBool True), (''message'', JString ''hello'')])"
    by (simp add: exampleParse_def doneHello_def)
  have b: "exampleParse toolSearch
             = Some (JObject [(''tool'', JString ''search''),
                              (''arguments'', JObject [(''q'', JString ''x'')])])"
    by (simp add: exampleParse_def doneHello_def toolSearch_def)
  have c: "exampleParse doneFound
             = Some (JObject [(''done'', JBool True), (''message'', JString ''found it'')])"
    by (simp add: exampleParse_def doneHello_def toolSearch_def doneFound_def)
  have d: "okProvider (JString ''search'') (JObject [(''q'', JString ''x'')]) = Inr (JBool True)"
    by (simp add: okProvider_def)
  note t = free_text_protocol_examples[where parse=exampleParse and provider=okProvider and result="JBool True"
        and render=exampleStringify and tools=exTools
        and prompt="''You are a helpful assistant.''" and userCommand="''find x''"
        and s=moduleState_text and calls="[]", OF a b c]
  have e1: "fst (executeCommand_text
                   (exRecordingEnv okProvider [Some (textMessage Assistant doneHello)])
                   ''find x'' moduleState_text (0, []))
              = Inr (JString ''hello'')"
    using t by (simp only: exRecordingEnv_def)
  have e2: "snd (snd (executeCommand_text
                   (exRecordingEnv okProvider [Some (textMessage Assistant doneHello)])
                   ''find x'' moduleState_text (0, [])))
              = (1, [])"
    using t by (simp only: exRecordingEnv_def)
  have e3: "fst (executeCommand_text
           (exRecordingEnv okProvider
              [Some (textMessage Assistant toolSearch), Some (textMessage Assistant doneFound)])
           ''find x'' moduleState_text (0, []))
       = Inr (JString ''found it'')"
    using t d by (simp only: exRecordingEnv_def simp_thms)
  have e4: "snd (snd (snd (executeCommand_text
           (exRecordingEnv okProvider
              [Some (textMessage Assistant toolSearch), Some (textMessage Assistant doneFound)])
           ''find x'' moduleState_text (0, []))))
       = [] @ [(JString ''search'', JObject [(''q'', JString ''x'')])]"
    using t by (simp only: exRecordingEnv_def)
  have e5: "fst (snd (snd (executeCommand_text
           (exRecordingEnv okProvider
              [Some (textMessage Assistant toolSearch), Some (textMessage Assistant doneFound)])
           ''find x'' moduleState_text (0, []))))
       = 2"
    using t d by (simp only: exRecordingEnv_def simp_thms)
  have e6: "snd (snd (executeCommand_text
           (exRecordingEnv okProvider
              [Some (textMessage Assistant toolSearch), Some (textMessage Assistant doneFound)])
           ''find x'' moduleState_text (0, [])))
       = (2, [(JString ''search'', JObject [(''q'', JString ''x'')])])"
    using e4 e5 by (simp add: prod_eq_iff)
  show ?thesis
    using a b c d e1 e2 e3 e6 by (intro conjI)
qed

text \<open>
  Claim C10, as stated, at the assistant text \<^verbatim>\<open>null\<close> in the free-text variant: the text is
  valid JSON and has neither shape, the loop ends at the first request, and the command
  returns the text \<^verbatim>\<open>null\<close>, not the empty string. Reading \<^verbatim>\<open>parsed.done\<close> of \<^verbatim>\<open>null\<close>
  throws inside the \<^verbatim>\<open>try\<close>, and the \<^verbatim>\<open>catch\<close> makes the output of the LLM the answer.
\<close>

theorem null_directive_counterexample:
  "exampleParse ''null'' = Some JNull
   \<and> degenerateDirective JNull
   \<and> fst (executeCommand_text (exEnv okProvider [Some (textMessage Assistant ''null'')])
            ''find x'' moduleState_text 0)
       = Inr (JString ''null'')
   \<and> fst (executeCommand_text (exEnv okProvider [Some (textMessage Assistant ''null'')])
            ''find x'' moduleState_text 0)
       \<noteq> Inr (JString [])"
  by (simp add: run_defs degenerateDirective_def property_def)

text \<open>
  Claim C10, amended: when the loop ends in a degenerate terminal state before the
  iteration cap, \<^verbatim>\<open>executeCommand\<close> returns the empty string, not a canned message and not
  an error. In the structured variant the state is a reply of the LLM with neither text
  content nor tool calls, or with no message at all, at a request before the twentieth.
  In the free-text variant it is an assistant text that is valid JSON other than
  \<^verbatim>\<open>null\<close> and has neither the shape \<^verbatim>\<open>done: true\<close> nor a tool with arguments, or has
  \<^verbatim>\<open>done: true\<close> and no message field. In both, every earlier pass of the loop ended with a
  tool invocation.
\<close>

theorem degenerate_state_returns_empty_string:
  "(initialize env s w = (None, s0, w0)
      \<and> continues (loopBody env) n (trimHistoryCall (push (textMessage User userCommand) s0)) w0
          = Some (s1, w1)
      \<and> n + 1 < 20
      \<and> createCompletion env w1 (chatHistory s1) (Some (openAITools s1)) = (Inr reply, w2)
      \<and> degenerateReply reply
     \<longrightarrow> fst (executeCommand env userCommand s w) = Inr [])
   \<and> (initialize_text env s w = (None, t0, v0)
      \<and> continues (loopBody_text env) k
            (trimHistoryCall (push (textMessage User userCommand) t0)) v0
          = Some (t1, v1)
      \<and> k + 1 \<le> 10
      \<and> createCompletion env v1 (chatHistory t1) None = (Inr answer, v2)
      \<and> jsonParse env (llmOutputOf answer) = Some parsed
      \<and> parsed \<noteq> JNull
      \<and> degenerateDirective parsed
     \<longrightarrow> fst (executeCommand_text env userCommand s w) = Inr (JString []))"
proof (intro conjI impI)
  assume a: "initialize env s w = (None, s0, w0)
      \<and> continues (loopBody env) n (trimHistoryCall (push (textMessage User userCommand) s0)) w0
          = Some (s1, w1)
      \<and> n + 1 < 20
      \<and> createCompletion env w1 (chatHistory s1) (Some (openAITools s1)) = (Inr reply, w2)
      \<and> degenerateReply reply"
  then obtain s2 where b: "loopBody env s1 w1 = (Break [], s2, w2)"
    using degenerateReply_break[of env w1 s1 reply w2] by blast
  have "agentLoop env 0 (trimHistoryCall (push (textMessage User userCommand) s0)) w0
          = (Inr (0 + n + 1, []), s2, w2)"
    using a b by (intro agentLoop_break[of env n _ w0 s1 w1]) (simp_all add: MAX_ITERATIONS_def)
  then show "fst (executeCommand env userCommand s w) = Inr []"
    using a by (simp add: executeCommand_def MAX_ITERATIONS_def)
next
  assume a: "initialize_text env s w = (None, t0, v0)
      \<and> continues (loopBody_text env) k
            (trimHistoryCall (push (textMessage User userCommand) t0)) v0
          = Some (t1, v1)
      \<and> k + 1 \<le> 10
      \<and> createCompletion env v1 (chatHistory t1) None = (Inr answer, v2)
      \<and> jsonParse env (llmOutputOf answer) = Some parsed
      \<and> parsed \<noteq> JNull
      \<and> degenerateDirective parsed"
  then obtain t2 where b: "loopBody_text env t1 v1 = (Break (JString []), t2, v2)"
    using degenerateDirective_body[of env v1 t1 answer v2 parsed] by blast
  have "agentLoop_text env 0 (trimHistoryCall (push (textMessage User userCommand) t0)) v0
          = (Inr (0 + k + 1, True, JString []), t2, v2)"
    using a b
    by (intro agentLoop_text_break[of env k _ v0 t1 v1]) (simp_all add: MAX_ITERATIONS_text_def)
  then show "fst (executeCommand_text env userCommand s w) = Inr (JString [])"
    using a by (simp add: executeCommand_text_def)
qed

theorem degenerate_state_returns_empty_string_witness:
  "degenerateReply (Some exEmptyReply)
   \<and> fst (executeCommand (exEnv okProvider [Some exToolCallMessage, Some exEmptyReply])
            ''find x'' moduleState 0)
       = Inr []
   \<and> exampleParse (llmOutputOf (Some (textMessage Assistant ''{}''))) = Some (JObject [])
   \<and> JObject [] \<noteq> JNull
   \<and> degenerateDirective (JObject [])
   \<and> fst (executeCommand_text
            (exEnv okProvider
               [Some (textMessage Assistant toolSearch), Some (textMessage Assistant ''{}'')])
            ''find x'' moduleState_text 0)
       = Inr (JString [])"
proof -
  let ?E = "exEnv okProvider [Some exToolCallMessage, Some exEmptyReply]"
  let ?F = "exEnv okProvider
              [Some (textMessage Assistant toolSearch), Some (textMessage Assistant ''{}'')]"
  define s0 where "s0 = fst (snd (initialize ?E moduleState 0))"
  define s1 where "s1 = fst (the (continues (loopBody ?E) 1
      (trimHistoryCall (push (textMessage User ''find x'') s0)) 0))"
  define t0 where "t0 = fst (snd (initialize_text ?F moduleState_text 0))"
  define t1 where "t1 = fst (the (continues (loopBody_text ?F) 1
      (trimHistoryCall (push (textMessage User ''find x'') t0)) 0))"
  have i: "initialize ?E moduleState 0 = (None, s0, 0)"
    by (simp add: s0_def run_defs)
  have c: "continues (loopBody ?E) 1 (trimHistoryCall (push (textMessage User ''find x'') s0)) 0
             = Some (s1, 1)"
    by (simp add: s1_def s0_def run_defs)
  have r: "createCompletion ?E 1 (chatHistory s1) (Some (openAITools s1))
             = (Inr (Some exEmptyReply), 2)"
    by (simp add: run_defs)
  have d: "degenerateReply (Some exEmptyReply)"
    by (simp add: degenerateReply_def exEmptyReply_def)
  have j: "initialize_text ?F moduleState_text 0 = (None, t0, 0)"
    by (simp add: t0_def run_defs)
  have e: "continues (loopBody_text ?F) 1
             (trimHistoryCall (push (textMessage User ''find x'') t0)) 0
             = Some (t1, 1)"
    by (simp add: t1_def t0_def run_defs)
  have q: "createCompletion ?F 1 (chatHistory t1) None
             = (Inr (Some (textMessage Assistant ''{}'')), 2)"
    by (simp add: run_defs)
  have p: "jsonParse ?F (llmOutputOf (Some (textMessage Assistant ''{}''))) = Some (JObject [])"
    by (simp add: run_defs)
  have p': "exampleParse (llmOutputOf (Some (textMessage Assistant ''{}''))) = Some (JObject [])"
    by (simp add: run_defs)
  have g: "degenerateDirective (JObject [])"
    by (simp add: degenerateDirective_def property_def)
  have a: "fst (executeCommand ?E ''find x'' moduleState 0) = Inr []"
    using degenerate_state_returns_empty_string[where env="?E" and s=moduleState and w=0
        and ?s0.0=s0 and ?w0.0=0 and userCommand="''find x''" and n=1 and ?s1.0=s1
        and ?w1.0=1 and reply="Some exEmptyReply" and ?w2.0=2] i c r d
    by simp
  have b: "fst (executeCommand_text ?F ''find x'' moduleState_text 0) = Inr (JString [])"
    using degenerate_state_returns_empty_string[where env="?F" and s=moduleState_text and w=0
        and ?t0.0=t0 and ?v0.0=0 and userCommand="''find x''" and k=1 and ?t1.0=t1
        and ?v1.0=1 and answer="Some (textMessage Assistant ''{}'')" and ?v2.0=2
        and parsed="JObject []"] j e q p g
    by simp
  show ?thesis using a b d p' g by simp
qed

end
